theory Spec2Isabelle
  imports Complex_Main "HOL-Library.Sublist"
begin

section \<open>Error taxonomy (src/types/errors.ts)\<close>

text \<open>
  The enums \<open>ErrorCategory\<close> and \<open>ErrorSeverity\<close> are datatypes. A thrown JavaScript
  \<open>Error\<close> is a record of its \<open>name\<close> and \<open>message\<close>; \<open>BaseError extends Error\<close> is the
  record extension that adds \<open>metadata\<close>, \<open>cause\<close> and the two fields of
  \<open>ApiClientError\<close> (absent, \<open>None\<close>, in every other subclass). The stack trace is not
  modelled. HTTP status codes are integers.
\<close>

datatype ErrorCategory =
  AUTHENTICATION | AUTHORIZATION | VALIDATION
| NETWORK | API_CLIENT | TIMEOUT
| CONFIGURATION | RESOURCE | UNKNOWN

datatype ErrorSeverity = LOW | MEDIUM | HIGH | CRITICAL

record js_error =
  name :: string
  message :: string

text \<open>
  A value of a \<open>LogContext\<close>. \<open>LJsonError\<close> stands for the text that
  \<open>JSON.stringify\<close> produces for an \<open>Error\<close> object and \<open>LJsonOther\<close> for the text
  that the conversion produces for any other value; the texts themselves are not
  computed.
\<close>

datatype log_value =
  LNumber int | LString string | LUndefined | LJsonError js_error | LJsonOther

record ErrorMetadata =
  category :: ErrorCategory
  severity :: ErrorSeverity
  code :: string
  retryable :: bool
  timestamp :: string
  correlationId :: "string option"
  "context" :: "(string \<times> log_value) list option"

record BaseError = js_error +
  metadata :: ErrorMetadata
  cause :: "js_error option"
  statusCode :: "int option"
  responseBody :: "string option"

text \<open>
  A value of TypeScript's \<open>unknown\<close>, as far as the classifier and the retry loop tell
  values apart. \<open>Unprintable v\<close> is an object that is not an \<open>Error\<close> and for which
  \<open>String(value)\<close> throws \<open>v\<close>: \<open>Object.create(null)\<close>, which has no \<open>toString\<close>, is
  \<open>Unprintable\<close> of a \<open>TypeError\<close>. Every other value converts to a string.
\<close>

datatype js_value =
  Typed BaseError      \<comment> \<open>\<open>instanceof BaseError\<close>\<close>
| PlainError js_error  \<comment> \<open>\<open>instanceof Error\<close>, not a \<open>BaseError\<close>\<close>
| Str string           \<comment> \<open>\<open>typeof error === 'string'\<close>\<close>
| Unprintable js_value \<comment> \<open>an object whose conversion to a string throws the given value\<close>
| Other                \<comment> \<open>anything else\<close>

subsection \<open>Strings\<close>

text \<open>\<open>String(n)\<close> for an integer \<open>n\<close>, and \<open>s.includes(sub)\<close>.\<close>

fun string_of_nat :: "nat \<Rightarrow> string" where
  "string_of_nat n =
     (if n < 10 then [char_of (48 + n)]
      else string_of_nat (n div 10) @ [char_of (48 + n mod 10)])"

definition String_number :: "int \<Rightarrow> string" where
  "String_number i = (if i < 0 then CHR ''-'' # string_of_nat (nat (- i)) else string_of_nat (nat i))"

definition str_includes :: "string \<Rightarrow> string \<Rightarrow> bool" where
  "str_includes s sub = sublist sub s"

text \<open>JavaScript truthiness of an optional number: \<open>undefined\<close> and \<open>0\<close> are falsy.\<close>

definition truthy :: "int option \<Rightarrow> bool" where
  "truthy v = (case v of None \<Rightarrow> False | Some n \<Rightarrow> n \<noteq> 0)"

definition orDefault :: "'a option \<Rightarrow> 'a \<Rightarrow> 'a" where
  "orDefault v d = (case v of None \<Rightarrow> d | Some x \<Rightarrow> x)"

subsection \<open>Constructors\<close>

text \<open>
  Every constructor takes the clock reading \<open>ts\<close> that \<open>new Date().toISOString()\<close>
  returns; an optional argument with a default is an \<open>option\<close>. \<open>ValidationError\<close> and
  \<open>GenericError\<close> turn each value of their \<open>context\<close> argument into a string
  (\<open>safeContext\<close>); here the callers pass the converted context.
\<close>

definition BaseError_new ::
  "string \<Rightarrow> string \<Rightarrow> string \<Rightarrow> ErrorCategory \<Rightarrow> ErrorSeverity \<Rightarrow> string \<Rightarrow> bool \<Rightarrow>
   (string \<times> log_value) list option \<Rightarrow> js_error option \<Rightarrow> BaseError" where
  "BaseError_new ts cls msg cat sev cd r c cs =
     \<lparr> name = cls, message = msg,
       metadata = \<lparr> category = cat, severity = sev, code = cd, retryable = r,
                    timestamp = ts, correlationId = None, context = c \<rparr>,
       cause = cs, statusCode = None, responseBody = None \<rparr>"

definition AuthenticationError :: "string \<Rightarrow> string \<Rightarrow> string option \<Rightarrow> js_error option \<Rightarrow> BaseError" where
  "AuthenticationError ts msg cd cs =
     BaseError_new ts ''AuthenticationError'' msg AUTHENTICATION HIGH (orDefault cd ''AUTH_001'') False None cs"

definition AuthorizationError :: "string \<Rightarrow> string \<Rightarrow> string option \<Rightarrow> js_error option \<Rightarrow> BaseError" where
  "AuthorizationError ts msg cd cs =
     BaseError_new ts ''AuthorizationError'' msg AUTHORIZATION HIGH (orDefault cd ''AUTHZ_001'') False None cs"

definition ValidationError ::
  "string \<Rightarrow> string \<Rightarrow> string option \<Rightarrow> (string \<times> log_value) list option \<Rightarrow> js_error option \<Rightarrow> BaseError" where
  "ValidationError ts msg cd safeContext cs =
     BaseError_new ts ''ValidationError'' msg VALIDATION LOW (orDefault cd ''VAL_001'') False safeContext cs"

definition NetworkError :: "string \<Rightarrow> string \<Rightarrow> string option \<Rightarrow> js_error option \<Rightarrow> BaseError" where
  "NetworkError ts msg cd cs =
     BaseError_new ts ''NetworkError'' msg NETWORK MEDIUM (orDefault cd ''NET_001'') True None cs"

definition ApiClientError ::
  "string \<Rightarrow> string \<Rightarrow> int option \<Rightarrow> string option \<Rightarrow> string option \<Rightarrow> js_error option \<Rightarrow> BaseError" where
  "ApiClientError ts msg sc body cd cs =
     (BaseError_new ts ''ApiClientError'' msg API_CLIENT
        (if truthy sc \<and> the sc \<ge> 500 then HIGH else MEDIUM)
        (orDefault cd ''API_001'')
        (if truthy sc then the sc \<ge> 500 \<or> the sc = 429 else True)
        (Some [(''statusCode'', case sc of None \<Rightarrow> LUndefined | Some n \<Rightarrow> LNumber n),
               (''responseBody'', case body of None \<Rightarrow> LUndefined | Some b \<Rightarrow> LString b)])
        cs)
     \<lparr> statusCode := sc, responseBody := body \<rparr>"

definition TimeoutError :: "string \<Rightarrow> string \<Rightarrow> int \<Rightarrow> string option \<Rightarrow> js_error option \<Rightarrow> BaseError" where
  "TimeoutError ts msg timeout cd cs =
     BaseError_new ts ''TimeoutError'' msg TIMEOUT MEDIUM (orDefault cd ''TIMEOUT_001'') True
       (Some [(''timeout'', LNumber timeout)]) cs"

definition ConfigurationError :: "string \<Rightarrow> string \<Rightarrow> string option \<Rightarrow> js_error option \<Rightarrow> BaseError" where
  "ConfigurationError ts msg cd cs =
     BaseError_new ts ''ConfigurationError'' msg CONFIGURATION CRITICAL (orDefault cd ''CONFIG_001'') False None cs"

definition ResourceError :: "string \<Rightarrow> string \<Rightarrow> string option \<Rightarrow> js_error option \<Rightarrow> BaseError" where
  "ResourceError ts msg cd cs =
     BaseError_new ts ''ResourceError'' msg RESOURCE HIGH (orDefault cd ''RESOURCE_001'') True None cs"

definition GenericError ::
  "string \<Rightarrow> string \<Rightarrow> string option \<Rightarrow> (string \<times> log_value) list option \<Rightarrow> js_error option \<Rightarrow> BaseError" where
  "GenericError ts msg cd safeContext cs =
     BaseError_new ts ''GenericError'' msg UNKNOWN MEDIUM (orDefault cd ''UNKNOWN_001'') False safeContext cs"

definition getSafeMessage :: "BaseError \<Rightarrow> string" where
  "getSafeMessage e =
     (case category (metadata e) of
        AUTHENTICATION \<Rightarrow> ''Authentication is required. Please check your credentials.''
      | AUTHORIZATION \<Rightarrow> ''You do not have permission to perform this action.''
      | VALIDATION \<Rightarrow> ''The provided data is invalid. Please check your input.''
      | NETWORK \<Rightarrow> ''A temporary network issue occurred. Please try again later.''
      | TIMEOUT \<Rightarrow> ''A temporary network issue occurred. Please try again later.''
      | API_CLIENT \<Rightarrow> ''External service is temporarily unavailable. Please try again later.''
      | CONFIGURATION \<Rightarrow> ''System configuration error. Please contact support.''
      | RESOURCE \<Rightarrow> ''Required resource is not available. Please try again later.''
      | UNKNOWN \<Rightarrow> ''An unexpected error occurred. Please try again later.'')"

subsection \<open>ErrorClassifier\<close>

text \<open>
  \<open>fromHttpResponse\<close>: the \<open>switch\<close> on the status code, its cases in the source's
  order, then the \<open>default\<close> branch with its two (identical) arms.
\<close>

definition fromHttpResponse ::
  "string \<Rightarrow> int \<Rightarrow> string \<Rightarrow> string option \<Rightarrow> js_error option \<Rightarrow> BaseError" where
  "fromHttpResponse ts sc statusText body originalError =
     (let msg = ''HTTP '' @ String_number sc @ '': '' @ statusText in
      if sc = 401 then AuthenticationError ts msg (Some ''HTTP_401'') originalError
      else if sc = 403 then AuthorizationError ts msg (Some ''HTTP_403'') originalError
      else if sc = 400 \<or> sc = 422 then
        ValidationError ts msg (Some (''HTTP_'' @ String_number sc))
          (Some [(''statusCode'', LString (String_number sc)),
                 (''responseBody'', LString (case body of None \<Rightarrow> ''undefined'' | Some b \<Rightarrow> b))])
          originalError
      else if sc = 429 then ApiClientError ts msg (Some sc) body (Some ''HTTP_429'') originalError
      else if sc = 408 \<or> sc = 504 then
        TimeoutError ts msg 30000 (Some (''HTTP_'' @ String_number sc)) originalError
      else if sc = 404 then ResourceError ts msg (Some ''HTTP_404'') originalError
      else if sc \<ge> 500 then
        ApiClientError ts msg (Some sc) body (Some (''HTTP_'' @ String_number sc)) originalError
      else
        ApiClientError ts msg (Some sc) body (Some (''HTTP_'' @ String_number sc)) originalError)"

text \<open>
  \<open>fromGenericError\<close>: a \<open>BaseError\<close> is returned as it is; an \<open>Error\<close> is classified by
  its name and message; a string becomes the message of a \<open>GenericError\<close>.
\<close>

definition fromGenericError :: "string \<Rightarrow> js_value \<Rightarrow> string option \<Rightarrow> BaseError" where
  "fromGenericError ts error ctx =
     (case error of
        Typed e \<Rightarrow> e
      | PlainError e \<Rightarrow>
          if name e = ''TypeError'' \<and> str_includes (message e) ''fetch'' then
            NetworkError ts (''Network error: '' @ message e) (Some ''FETCH_ERROR'') (Some e)
          else if name e = ''AbortError'' \<or> str_includes (message e) ''timeout'' then
            TimeoutError ts (''Operation timed out: '' @ message e) 30000 (Some ''TIMEOUT_ERROR'') (Some e)
          else
            GenericError ts
              (case ctx of None \<Rightarrow> message e | Some c \<Rightarrow> if c = [] then message e else c @ '': '' @ message e)
              (Some ''UNKNOWN_001'')
              (Some [(''originalError'', LJsonError e),
                     (''context'', LString (case ctx of None \<Rightarrow> ''undefined'' | Some c \<Rightarrow> c))])
              (Some e)
      | Str s \<Rightarrow>
          GenericError ts
            (case ctx of None \<Rightarrow> s | Some c \<Rightarrow> if c = [] then s else c @ '': '' @ s)
            (Some ''UNKNOWN_001'')
            (Some [(''originalError'', LString s),
                   (''context'', LString (case ctx of None \<Rightarrow> ''undefined'' | Some c \<Rightarrow> c))])
            None
      | Unprintable thrown \<Rightarrow>
          GenericError ts
            (case ctx of None \<Rightarrow> ''Unknown error occurred''
             | Some c \<Rightarrow> if c = [] then ''Unknown error occurred'' else c @ '': Unknown error occurred'')
            (Some ''UNKNOWN_001'')
            (Some [(''originalError'', LJsonOther),
                   (''context'', LString (case ctx of None \<Rightarrow> ''undefined'' | Some c \<Rightarrow> c))])
            None
      | Other \<Rightarrow>
          GenericError ts
            (case ctx of None \<Rightarrow> ''Unknown error occurred''
             | Some c \<Rightarrow> if c = [] then ''Unknown error occurred'' else c @ '': Unknown error occurred'')
            (Some ''UNKNOWN_001'')
            (Some [(''originalError'', LJsonOther),
                   (''context'', LString (case ctx of None \<Rightarrow> ''undefined'' | Some c \<Rightarrow> c))])
            None)"


section \<open>JavaScript numbers\<close>

text \<open>
  A JavaScript number is an IEEE 754 binary64 value: \<open>NaN\<close>, an infinity, or a finite
  value \<open>Num x\<close>. The sign of zero is not kept: no comparison in the source tells \<open>-0\<close>
  from \<open>0\<close>.
\<close>

datatype js_number = NaN | NegInf | Num real | PosInf

text \<open>
  Rounding to nearest, ties to even. \<open>rhe\<close> rounds a real to an integer that way.
  \<open>expo x\<close> is the binary exponent of \<open>x\<close>, not below that of the subnormal numbers;
  \<open>ulp x\<close> is the distance between neighbouring binary64 values there (53 significant
  bits), and \<open>nearest x\<close> the multiple of \<open>ulp x\<close> nearest to \<open>x\<close>. \<open>round64\<close> is the
  binary64 value of the exact result \<open>x\<close> of an operation: \<open>nearest x\<close>, or an infinity
  when that is \<open>2 ^ 1024\<close> or more in magnitude.
\<close>

definition rhe :: "real \<Rightarrow> int" where
  "rhe q = (let f = \<lfloor>q\<rfloor>; d = q - of_int f
            in if d < 1 / 2 then f else if d > 1 / 2 then f + 1
               else if even f then f else f + 1)"

definition expo :: "real \<Rightarrow> int" where
  "expo x = max \<lfloor>log 2 \<bar>x\<bar>\<rfloor> (- 1022)"

definition ulp :: "real \<Rightarrow> real" where
  "ulp x = 2 powr of_int (expo x - 52)"

definition nearest :: "real \<Rightarrow> real" where
  "nearest x = (if x = 0 then 0 else of_int (rhe (x / ulp x)) * ulp x)"

definition round64 :: "real \<Rightarrow> js_number" where
  "round64 x = (let y = nearest x
                in if 2 ^ 1024 \<le> \<bar>y\<bar> then (if 0 < x then PosInf else NegInf) else Num y)"

text \<open>\<open>a <= b\<close>: false when either side is \<open>NaN\<close>.\<close>

fun js_le :: "js_number \<Rightarrow> js_number \<Rightarrow> bool" where
  "js_le NaN b = False"
| "js_le a NaN = False"
| "js_le NegInf b = True"
| "js_le a PosInf = True"
| "js_le (Num x) (Num y) = (x \<le> y)"
| "js_le a b = False"

text \<open>\<open>a * b\<close> and \<open>a + b\<close>: the exact result rounded, with the rules for \<open>NaN\<close> and the infinities.\<close>

fun js_mul :: "js_number \<Rightarrow> js_number \<Rightarrow> js_number" where
  "js_mul NaN b = NaN"
| "js_mul a NaN = NaN"
| "js_mul (Num x) (Num y) = round64 (x * y)"
| "js_mul (Num x) PosInf = (if x = 0 then NaN else if 0 < x then PosInf else NegInf)"
| "js_mul (Num x) NegInf = (if x = 0 then NaN else if 0 < x then NegInf else PosInf)"
| "js_mul PosInf (Num y) = (if y = 0 then NaN else if 0 < y then PosInf else NegInf)"
| "js_mul NegInf (Num y) = (if y = 0 then NaN else if 0 < y then NegInf else PosInf)"
| "js_mul PosInf PosInf = PosInf"
| "js_mul PosInf NegInf = NegInf"
| "js_mul NegInf PosInf = NegInf"
| "js_mul NegInf NegInf = PosInf"

fun js_add :: "js_number \<Rightarrow> js_number \<Rightarrow> js_number" where
  "js_add NaN b = NaN"
| "js_add a NaN = NaN"
| "js_add (Num x) (Num y) = round64 (x + y)"
| "js_add PosInf NegInf = NaN"
| "js_add NegInf PosInf = NaN"
| "js_add PosInf b = PosInf"
| "js_add a PosInf = PosInf"
| "js_add NegInf b = NegInf"
| "js_add a NegInf = NegInf"

fun Math_min :: "js_number \<Rightarrow> js_number \<Rightarrow> js_number" where
  "Math_min NaN b = NaN"
| "Math_min a NaN = NaN"
| "Math_min a b = (if js_le a b then a else b)"

fun Math_floor :: "js_number \<Rightarrow> js_number" where
  "Math_floor (Num x) = Num (of_int \<lfloor>x\<rfloor>)"
| "Math_floor a = a"

text \<open>
  \<open>Math.pow(base, n)\<close> for an integer exponent \<open>n\<close>. For the exponent 0 the result is 1,
  whatever the base. Every other result is left to the implementation by the language
  ("an implementation-approximated value"), so it is the parameter \<open>pw\<close>: what the
  platform's \<open>Math.pow\<close> returns for a base and an exponent other than 0.
\<close>

definition Math_pow :: "(js_number \<Rightarrow> int \<Rightarrow> js_number) \<Rightarrow> js_number \<Rightarrow> int \<Rightarrow> js_number" where
  "Math_pow pw base n = (if n = 0 then Num 1 else pw base n)"

section \<open>Retry mechanism (src/utils/retry.ts)\<close>

text \<open>
  The delays and the backoff factor are JavaScript numbers; \<open>maxAttempts\<close>, a count, and
  the attempt counter are integers. An operation rejects with a \<open>js_value\<close>.
\<close>

record RetryConfig =
  maxAttempts :: int
  initialDelay :: js_number
  maxDelay :: js_number
  backoffFactor :: js_number
  jitter :: bool
  retryableErrors :: "js_value \<Rightarrow> bool"

definition isRetryableError :: "js_value \<Rightarrow> bool" where
  "isRetryableError error =
     (case error of
        Typed e \<Rightarrow> retryable (metadata e)
      | PlainError e \<Rightarrow>
          name e = ''NetworkError'' \<or> str_includes (message e) ''ECONNRESET''
          \<or> str_includes (message e) ''ECONNREFUSED'' \<or> str_includes (message e) ''ENOTFOUND''
          \<or> str_includes (message e) ''timeout''
      | Str s \<Rightarrow> False
      | Unprintable thrown \<Rightarrow> False
      | Other \<Rightarrow> False)"

definition DEFAULT_RETRY_CONFIG :: RetryConfig where
  "DEFAULT_RETRY_CONFIG =
     \<lparr> maxAttempts = 3, initialDelay = Num 1000, maxDelay = Num 10000, backoffFactor = Num 2,
       jitter = True, retryableErrors = isRetryableError \<rparr>"

definition LIGHT_RETRY_CONFIG :: RetryConfig where
  "LIGHT_RETRY_CONFIG =
     \<lparr> maxAttempts = 2, initialDelay = Num 500, maxDelay = Num 2000, backoffFactor = Num 1.5,
       jitter = True, retryableErrors = isRetryableError \<rparr>"

definition AGGRESSIVE_RETRY_CONFIG :: RetryConfig where
  "AGGRESSIVE_RETRY_CONFIG =
     \<lparr> maxAttempts = 5, initialDelay = Num 1000, maxDelay = Num 30000, backoffFactor = Num 2.5,
       jitter = True, retryableErrors = isRetryableError \<rparr>"

text \<open>
  \<open>calculateDelay\<close>: \<open>r\<close> is the value that \<open>Math.random()\<close> returns, a number in
  \<open>[0, 1)\<close>; it is read only when \<open>jitter\<close> is set. Every operation is the binary64 one.
\<close>

definition calculateDelay ::
  "(js_number \<Rightarrow> int \<Rightarrow> js_number) \<Rightarrow> int \<Rightarrow> RetryConfig \<Rightarrow> real \<Rightarrow> js_number" where
  "calculateDelay pw attempt config r =
     (let exponentialDelay =
            Math_min (js_mul (initialDelay config) (Math_pow pw (backoffFactor config) (attempt - 1)))
                     (maxDelay config)
      in if \<not> jitter config then exponentialDelay
         else (let jitterFactor = js_add (Num 0.75) (js_mul (Num r) (Num 0.5))
               in Math_floor (js_mul exponentialDelay jitterFactor)))"

subsection \<open>Logging inside the loop\<close>

text \<open>
  The loop logs through \<open>logger\<close> (the structured logger). Its calls build their messages
  and contexts from numbers, strings and booleans, which cannot fail, with two
  exceptions that convert the caught value to a string: the \<open>error\<close> field of the
  \<open>logger.warn\<close> context in the \<open>catch\<close> block,
  \<open>error instanceof Error ? error.message : String(error)\<close>, and \<open>logger.error\<close>, which
  stores \<open>String(error)\<close> for a truthy value that is not an \<open>Error\<close>. \<open>String_throws v\<close>
  is what \<open>String(v)\<close> throws, if it throws.
\<close>

definition instanceof_Error :: "js_value \<Rightarrow> bool" where
  "instanceof_Error v = (case v of Typed e \<Rightarrow> True | PlainError e \<Rightarrow> True | _ \<Rightarrow> False)"

definition String_throws :: "js_value \<Rightarrow> js_value option" where
  "String_throws v = (case v of Unprintable thrown \<Rightarrow> Some thrown | _ \<Rightarrow> None)"

definition warn_context_throws :: "js_value \<Rightarrow> js_value option" where
  "warn_context_throws error = (if instanceof_Error error then None else String_throws error)"

text \<open>
  \<open>logger.error(message, lastError, context)\<close>; \<open>None\<close> is \<open>undefined\<close>. The guard
  \<open>if (error)\<close> skips the falsy values, none of which is an object, so none of which is
  \<open>Unprintable\<close>.
\<close>

definition logger_error_throws :: "js_value option \<Rightarrow> js_value option" where
  "logger_error_throws lastError =
     (case lastError of
        None \<Rightarrow> None
      | Some error \<Rightarrow> if instanceof_Error error then None else String_throws error)"

subsection \<open>The loop\<close>

text \<open>
  What a call of \<open>RetryMechanism.execute\<close> does: how it settles (\<open>Inr\<close> the result it
  resolves with, \<open>Inl\<close> the value it rejects with, \<open>None\<close> for \<open>undefined\<close>), how many
  times it called the operation, and the delays it slept, in order.
\<close>

record 'a retry_run =
  outcome :: "js_value option + 'a"
  invocations :: nat
  sleeps :: "js_number list"

text \<open>
  The code after the loop: \<open>logger.error\<close>, then \<open>throw lastError\<close>.
\<close>

definition after_loop :: "js_value option \<Rightarrow> nat \<Rightarrow> js_number list \<Rightarrow> 'a retry_run" where
  "after_loop lastError n sl =
     (case logger_error_throws lastError of
        Some thrown \<Rightarrow> \<lparr> outcome = Inl (Some thrown), invocations = n, sleeps = sl \<rparr>
      | None \<Rightarrow> \<lparr> outcome = Inl lastError, invocations = n, sleeps = sl \<rparr>)"

text \<open>
  The \<open>for\<close> loop of \<open>execute\<close>. \<open>operation n\<close> is how the operation's call number \<open>n\<close>
  (from 0) settles, \<open>rnd k\<close> is the random number drawn for the sleep number \<open>k\<close>;
  \<open>n\<close> counts the calls made so far and \<open>sl\<close> holds the delays slept so far. In the
  \<open>catch\<close> block the context of \<open>logger.warn\<close> is built first: when that throws, the
  call rejects with what it threw. A \<open>break\<close> leaves the loop with \<open>lastError\<close> set to the
  error just caught.
\<close>

function retry_loop ::
  "(js_number \<Rightarrow> int \<Rightarrow> js_number) \<Rightarrow> (nat \<Rightarrow> js_value + 'a) \<Rightarrow> RetryConfig \<Rightarrow> (nat \<Rightarrow> real)
   \<Rightarrow> int \<Rightarrow> js_value option \<Rightarrow> nat \<Rightarrow> js_number list \<Rightarrow> 'a retry_run" where
  "retry_loop pw operation config rnd attempt lastError n sl =
     (if attempt \<le> maxAttempts config then
        (case operation n of
           Inr result \<Rightarrow> \<lparr> outcome = Inr result, invocations = n + 1, sleeps = sl \<rparr>
         | Inl error \<Rightarrow>
             (case warn_context_throws error of
                Some thrown \<Rightarrow> \<lparr> outcome = Inl (Some thrown), invocations = n + 1, sleeps = sl \<rparr>
              | None \<Rightarrow>
                  if attempt = maxAttempts config \<or> \<not> retryableErrors config error
                  then after_loop (Some error) (n + 1) sl
                  else retry_loop pw operation config rnd (attempt + 1) (Some error) (n + 1)
                         (sl @ [calculateDelay pw attempt config (rnd (length sl))])))
      else after_loop lastError n sl)"
  by pat_completeness auto
termination
  by (relation "measure (\<lambda>(pw, operation, config, rnd, attempt, lastError, n, sl).
                   nat (maxAttempts config + 1 - attempt))") auto

declare retry_loop.simps [simp del]

definition RetryMechanism_execute ::
  "(js_number \<Rightarrow> int \<Rightarrow> js_number) \<Rightarrow> (nat \<Rightarrow> js_value + 'a) \<Rightarrow> RetryConfig \<Rightarrow> (nat \<Rightarrow> real)
   \<Rightarrow> 'a retry_run" where
  "RetryMechanism_execute pw operation config rnd = retry_loop pw operation config rnd 1 None 0 []"

section \<open>Circuit breaker (src/utils/retry.ts)\<close>

text \<open>
  Counters, thresholds and clock readings (\<open>Date.now()\<close>, milliseconds) are integers.
  Every call of \<open>Date.now()\<close> in the source is a parameter of the function that makes it.
\<close>

datatype CircuitState = CLOSED | OPEN | HALF_OPEN

record CircuitBreakerConfig =
  failureThreshold :: int
  recoveryTimeout :: int
  monitoringPeriod :: int
  minimumRequests :: int

definition DEFAULT_CIRCUIT_CONFIG :: CircuitBreakerConfig where
  "DEFAULT_CIRCUIT_CONFIG =
     \<lparr> failureThreshold = 5, recoveryTimeout = 60000, monitoringPeriod = 10000,
       minimumRequests = 10 \<rparr>"

record BreakerStats =
  requests :: int
  failures :: int
  lastFailureTime :: int
  windowStart :: int

record CircuitBreaker =
  breakerName :: string
  config :: CircuitBreakerConfig
  state :: CircuitState
  stats :: BreakerStats

text \<open>The constructor; \<open>t\<close> is the clock when the breaker is created.\<close>

definition CircuitBreaker_new :: "string \<Rightarrow> CircuitBreakerConfig \<Rightarrow> int \<Rightarrow> CircuitBreaker" where
  "CircuitBreaker_new nm cfg t =
     \<lparr> breakerName = nm, config = cfg, state = CLOSED,
       stats = \<lparr> requests = 0, failures = 0, lastFailureTime = 0, windowStart = t \<rparr> \<rparr>"

definition resetStats :: "int \<Rightarrow> CircuitBreaker \<Rightarrow> CircuitBreaker" where
  "resetStats t cb =
     cb \<lparr> stats := \<lparr> requests = 0, failures = 0, lastFailureTime = 0, windowStart = t \<rparr> \<rparr>"

definition onSuccess :: "int \<Rightarrow> CircuitBreaker \<Rightarrow> CircuitBreaker" where
  "onSuccess t cb =
     (if state cb = HALF_OPEN then resetStats t (cb \<lparr> state := CLOSED \<rparr>) else cb)"

definition onFailure :: "int \<Rightarrow> CircuitBreaker \<Rightarrow> CircuitBreaker" where
  "onFailure t cb =
     (let cb1 = cb \<lparr> stats := (stats cb) \<lparr> failures := failures (stats cb) + 1,
                                          lastFailureTime := t \<rparr> \<rparr>
      in if failures (stats cb1) \<ge> failureThreshold (config cb1)
            \<and> requests (stats cb1) \<ge> minimumRequests (config cb1)
         then cb1 \<lparr> state := OPEN \<rparr>
         else cb1)"

text \<open>\<open>updateState\<close>: \<open>now\<close> is its own clock reading, \<open>t\<close> the one \<open>resetStats\<close> makes.\<close>

definition updateState :: "int \<Rightarrow> int \<Rightarrow> CircuitBreaker \<Rightarrow> CircuitBreaker" where
  "updateState now t cb =
     (let cb1 = (if now - windowStart (stats cb) > monitoringPeriod (config cb)
                 then resetStats t cb else cb)
      in if state cb1 = OPEN \<and> now - lastFailureTime (stats cb1) > recoveryTimeout (config cb1)
         then cb1 \<lparr> state := HALF_OPEN \<rparr>
         else cb1)"

datatype 'e breaker_error =
  CircuitOpen string    \<comment> \<open>the \<open>Error\<close> thrown while the circuit is open, with its message\<close>
| OperationError 'e     \<comment> \<open>the operation's own error, rethrown\<close>

record ('e, 'a) breaker_run =
  settled :: "'e breaker_error + 'a"
  invoked :: bool
  breaker :: CircuitBreaker

text \<open>
  \<open>CircuitBreaker.execute\<close> for a call that no other call on the same breaker
  interleaves with. \<open>operation\<close> is how the wrapped operation settles if it is called,
  \<open>tEnd\<close> the clock when it settles; \<open>invoked\<close> tells whether it was called.
\<close>

definition CircuitBreaker_execute ::
  "CircuitBreaker \<Rightarrow> int \<Rightarrow> int \<Rightarrow> 'e + 'a \<Rightarrow> int \<Rightarrow> ('e, 'a) breaker_run" where
  "CircuitBreaker_execute cb now t operation tEnd =
     (let cb1 = updateState now t cb
      in if state cb1 = OPEN then
           \<lparr> settled = Inl (CircuitOpen (''Circuit breaker is OPEN for: '' @ breakerName cb1)),
             invoked = False, breaker = cb1 \<rparr>
         else
           (let cb2 = cb1 \<lparr> stats := (stats cb1) \<lparr> requests := requests (stats cb1) + 1 \<rparr> \<rparr>
            in case operation of
                 Inr result \<Rightarrow>
                   \<lparr> settled = Inr result, invoked = True, breaker = onSuccess tEnd cb2 \<rparr>
               | Inl error \<Rightarrow>
                   \<lparr> settled = Inl (OperationError error), invoked = True,
                     breaker = onFailure tEnd cb2 \<rparr>))"

section \<open>Graceful shutdown (src/utils/graceful-shutdown.ts)\<close>

datatype ShutdownReason = SIGTERM | SIGINT | UNCAUGHT_EXCEPTION | UNHANDLED_REJECTION | MANUAL

record 'h ShutdownHandlerEntry =
  handlerName :: string
  handler :: 'h
  handlerTimeout :: int

text \<open>
  The manager's three fields, and \<open>handlerCalls\<close>: the positions in \<open>shutdownHandlers\<close> of
  the entries whose \<open>handler()\<close> has been called, in the order of the calls.
\<close>

record 'h GracefulShutdownManager =
  shutdownHandlers :: "'h ShutdownHandlerEntry list"
  isShuttingDown :: bool
  shutdownTimeout :: int
  handlerCalls :: "nat list"

definition GracefulShutdownManager_new :: "'h GracefulShutdownManager" where
  "GracefulShutdownManager_new =
     \<lparr> shutdownHandlers = [], isShuttingDown = False, shutdownTimeout = 30000,
       handlerCalls = [] \<rparr>"

definition registerHandler ::
  "string \<Rightarrow> 'h \<Rightarrow> int option \<Rightarrow> 'h GracefulShutdownManager \<Rightarrow> 'h GracefulShutdownManager" where
  "registerHandler nm h tmo m =
     m \<lparr> shutdownHandlers := shutdownHandlers m @
            [\<lparr> handlerName = nm, handler = h, handlerTimeout = orDefault tmo 10000 \<rparr>] \<rparr>"

definition setShutdownTimeout :: "int \<Rightarrow> 'h GracefulShutdownManager \<Rightarrow> 'h GracefulShutdownManager" where
  "setShutdownTimeout timeoutMs m = m \<lparr> shutdownTimeout := timeoutMs \<rparr>"

text \<open>
  \<open>executeHandlerWithTimeout\<close> calls \<open>handler()\<close> at once, before its first \<open>await\<close>;
  the race against the timer that follows calls no handler.
\<close>

definition executeHandlerWithTimeout :: "nat \<Rightarrow> 'h GracefulShutdownManager \<Rightarrow> 'h GracefulShutdownManager" where
  "executeHandlerWithTimeout i m = m \<lparr> handlerCalls := handlerCalls m @ [i] \<rparr>"

text \<open>
  \<open>shutdown\<close> up to its first \<open>await\<close>: the guard, the flag, and the \<open>map\<close> over the
  registered entries. What follows (the race against the global timer and
  \<open>process.exit\<close>) reads neither the flag nor the list.
\<close>

definition shutdown :: "ShutdownReason option \<Rightarrow> 'h GracefulShutdownManager \<Rightarrow> 'h GracefulShutdownManager" where
  "shutdown reason m =
     (if isShuttingDown m then m
      else fold executeHandlerWithTimeout [0 ..< length (shutdownHandlers m)]
             (m \<lparr> isShuttingDown := True \<rparr>))"

definition exitCode :: "ShutdownReason option \<Rightarrow> int" where
  "exitCode reason =
     (if orDefault reason MANUAL = UNCAUGHT_EXCEPTION \<or> orDefault reason MANUAL = UNHANDLED_REJECTION
      then 1 else 0)"

text \<open>The calls a program can make on the manager, and a sequence of them.\<close>

datatype 'h manager_call =
  RegisterHandler string 'h "int option"
| SetShutdownTimeout int
| Shutdown "ShutdownReason option"

fun manager_step :: "'h manager_call \<Rightarrow> 'h GracefulShutdownManager \<Rightarrow> 'h GracefulShutdownManager" where
  "manager_step (RegisterHandler nm h tmo) m = registerHandler nm h tmo m"
| "manager_step (SetShutdownTimeout t) m = setShutdownTimeout t m"
| "manager_step (Shutdown reason) m = shutdown reason m"

definition manager_run :: "'h manager_call list \<Rightarrow> 'h GracefulShutdownManager \<Rightarrow> 'h GracefulShutdownManager" where
  "manager_run calls m = fold manager_step calls m"

text \<open>
  What holds of the manager after every sequence of calls: before the first \<open>shutdown\<close>
  no handler has been called, no entry has been called twice, and only registered entries
  have been called.
\<close>

definition calls_inv :: "'h GracefulShutdownManager \<Rightarrow> bool" where
  "calls_inv m \<longleftrightarrow>
     (\<not> isShuttingDown m \<longrightarrow> handlerCalls m = []) \<and> distinct (handlerCalls m)
     \<and> (\<forall>i \<in> set (handlerCalls m). i < length (shutdownHandlers m))"


section \<open>The status table of the specification\<close>

text \<open>
  The mapping from status codes to category and retryability as the specification states
  it: a table read from the top, the first row that holds of the status code deciding.
\<close>

definition spec_status_table :: "((int \<Rightarrow> bool) \<times> ErrorCategory \<times> bool) list" where
  "spec_status_table =
     [(\<lambda>sc. sc = 401, AUTHENTICATION, False),
      (\<lambda>sc. sc = 403, AUTHORIZATION, False),
      (\<lambda>sc. sc = 400 \<or> sc = 422, VALIDATION, False),
      (\<lambda>sc. sc = 429, API_CLIENT, True),
      (\<lambda>sc. sc = 408 \<or> sc = 504, TIMEOUT, True),
      (\<lambda>sc. 500 \<le> sc, API_CLIENT, True),
      (\<lambda>sc. sc = 404, RESOURCE, True)]"

fun first_row :: "((int \<Rightarrow> bool) \<times> ErrorCategory \<times> bool) list \<Rightarrow> int \<Rightarrow> (ErrorCategory \<times> bool) option" where
  "first_row [] sc = None"
| "first_row ((p, c, r) # rows) sc = (if p sc then Some (c, r) else first_row rows sc)"

section \<open>The classifier\<close>

lemmas ctor_defs = AuthenticationError_def AuthorizationError_def ValidationError_def
  NetworkError_def ApiClientError_def TimeoutError_def ConfigurationError_def
  ResourceError_def GenericError_def BaseError_new_def orDefault_def truthy_def

text \<open>
  C3, as the code has it. For every 4xx status code other than 400, 401, 403, 404, 408,
  422 and 429, \<open>fromHttpResponse\<close> returns an error of category \<open>API_CLIENT\<close> whose
  metadata has \<open>retryable = false\<close>: \<open>ApiClientError\<close> marks only 429 and the codes from
  500 on as retryable.
\<close>

theorem other_4xx_not_retryable:
  assumes "400 \<le> sc" "sc \<le> 499" "sc \<notin> {400, 401, 403, 404, 408, 422, 429}"
  shows "category (metadata (fromHttpResponse ts sc statusText body originalError)) = API_CLIENT
       \<and> retryable (metadata (fromHttpResponse ts sc statusText body originalError)) = False"
  using assms by (simp add: fromHttpResponse_def ctor_defs Let_def)

theorem other_4xx_not_retryable_witness:
  "category (metadata (fromHttpResponse ''2026-01-01T00:00:00.000Z'' 418 ''I am a teapot'' None None))
     = API_CLIENT
   \<and> retryable (metadata (fromHttpResponse ''2026-01-01T00:00:00.000Z'' 418 ''I am a teapot'' None None))
     = False"
  using other_4xx_not_retryable [of 418 "''2026-01-01T00:00:00.000Z''" "''I am a teapot''" None None]
  by simp

text \<open>
  C3 as it is written fails at status 402: the category is \<open>API_CLIENT\<close>, but the error
  is not retryable.
\<close>

theorem other_4xx_retryable_counterexample:
  "\<not> (category (metadata (fromHttpResponse ''2026-01-01T00:00:00.000Z'' 402 ''Payment Required'' None None))
        = API_CLIENT
      \<and> retryable (metadata (fromHttpResponse ''2026-01-01T00:00:00.000Z'' 402 ''Payment Required'' None None))
        = True)"
  by (simp add: fromHttpResponse_def ctor_defs Let_def)

text \<open>
  C7. \<open>fromHttpResponse\<close> maps 401 to \<open>AUTHENTICATION\<close> and 403 to \<open>AUTHORIZATION\<close>, 400
  and 422 to \<open>VALIDATION\<close>, all four not retryable; 429 to \<open>API_CLIENT\<close>, 408 and 504 to
  \<open>TIMEOUT\<close>, 404 to \<open>RESOURCE\<close>, all four retryable; and every status from 500 on is
  retryable and, 504 having its own row, of category \<open>API_CLIENT\<close>. In one statement:
  whatever row of the specification's table decides a status code, read from the top,
  the error returned has that row's category and retryability.
\<close>

theorem status_mapping:
  fixes ts :: string and statusText :: string and body :: "string option"
    and originalError :: "js_error option"
  defines "md \<equiv> \<lambda>sc. metadata (fromHttpResponse ts sc statusText body originalError)"
  shows "(category (md 401) = AUTHENTICATION \<and> \<not> retryable (md 401))
       \<and> (category (md 403) = AUTHORIZATION \<and> \<not> retryable (md 403))
       \<and> (category (md 400) = VALIDATION \<and> \<not> retryable (md 400))
       \<and> (category (md 422) = VALIDATION \<and> \<not> retryable (md 422))
       \<and> (category (md 429) = API_CLIENT \<and> retryable (md 429))
       \<and> (category (md 408) = TIMEOUT \<and> retryable (md 408))
       \<and> (category (md 504) = TIMEOUT \<and> retryable (md 504))
       \<and> (category (md 404) = RESOURCE \<and> retryable (md 404))
       \<and> (500 \<le> sc \<longrightarrow>
             retryable (md sc) \<and> category (md sc) = (if sc = 504 then TIMEOUT else API_CLIENT))
       \<and> (first_row spec_status_table sc = Some (c, r) \<longrightarrow>
             category (md sc) = c \<and> retryable (md sc) = r)"
  unfolding md_def
  by (auto simp add: fromHttpResponse_def ctor_defs Let_def spec_status_table_def
        split: if_splits)

theorem status_mapping_witness:
  "category (metadata (fromHttpResponse ''2026-01-01T00:00:00.000Z'' 503 ''Service Unavailable'' None None))
     = API_CLIENT
   \<and> retryable (metadata (fromHttpResponse ''2026-01-01T00:00:00.000Z'' 503 ''Service Unavailable'' None None))"
proof -
  have row: "first_row spec_status_table 503 = Some (API_CLIENT, True)"
    by (simp add: spec_status_table_def)
  note m = status_mapping [where sc = 503 and ts = "''2026-01-01T00:00:00.000Z''"
      and statusText = "''Service Unavailable''" and body = None and originalError = None
      and c = API_CLIENT and r = True]
  from m row show ?thesis by blast
qed

text \<open>
  C8. \<open>fromGenericError\<close> returns a value that is already a \<open>BaseError\<close> as it is, with
  its metadata, whatever the clock and the context argument are; so classifying the
  result of a classification again changes nothing.
\<close>

theorem fromGenericError_idempotent:
  "fromGenericError ts (Typed e) ctx = e
   \<and> fromGenericError ts2 (Typed (fromGenericError ts v ctx)) ctx2 = fromGenericError ts v ctx"
  by (simp add: fromGenericError_def)

theorem fromGenericError_idempotent_witness:
  "fromGenericError ''2026-01-02T00:00:00.000Z''
     (Typed (fromHttpResponse ''2026-01-01T00:00:00.000Z'' 404 ''Not Found'' None None))
     (Some ''getCase'')
   = fromHttpResponse ''2026-01-01T00:00:00.000Z'' 404 ''Not Found'' None None"
  using fromGenericError_idempotent
    [of "''2026-01-02T00:00:00.000Z''"
        "fromHttpResponse ''2026-01-01T00:00:00.000Z'' 404 ''Not Found'' None None"
        "Some ''getCase''"]
  by simp

section \<open>Rounding\<close>

text \<open>
  Rounding to an integer keeps integers and is monotone; so \<open>nearest\<close> keeps every value
  on its grid, stays on the side of such a value where its argument is, and is monotone
  on the numbers that are not negative.
\<close>

lemma rhe_of_int: "rhe (of_int m) = m"
  by (simp add: rhe_def)

lemma rhe_bounds: "\<lfloor>q\<rfloor> \<le> rhe q \<and> rhe q \<le> \<lfloor>q\<rfloor> + 1"
  by (simp add: rhe_def Let_def)

lemma rhe_mono: "q1 \<le> q2 \<Longrightarrow> rhe q1 \<le> rhe q2"
proof -
  assume le: "q1 \<le> q2"
  then have fl: "\<lfloor>q1\<rfloor> \<le> \<lfloor>q2\<rfloor>" by (rule floor_mono)
  show ?thesis
  proof (cases "\<lfloor>q1\<rfloor> = \<lfloor>q2\<rfloor>")
    case True
    with le show ?thesis by (auto simp: rhe_def Let_def)
  next
    case False
    with fl have "\<lfloor>q1\<rfloor> + 1 \<le> \<lfloor>q2\<rfloor>" by simp
    with rhe_bounds [of q1] rhe_bounds [of q2] show ?thesis by linarith
  qed
qed

lemma expo_le:
  assumes "x \<noteq> 0" and "\<bar>x\<bar> < 2 powr (of_int k + 1)" and "- 1022 \<le> k"
  shows "expo x \<le> k"
proof -
  have "2 powr (log 2 \<bar>x\<bar>) = \<bar>x\<bar>" using assms(1) by simp
  with assms(2) have "2 powr (log 2 \<bar>x\<bar>) < 2 powr (of_int k + 1)" by simp
  then have "log 2 \<bar>x\<bar> < of_int k + 1" by simp
  then have "\<lfloor>log 2 \<bar>x\<bar>\<rfloor> \<le> k" by (simp add: floor_le_iff)
  with assms(3) show ?thesis by (simp add: expo_def)
qed

lemma abs_less_expo:
  assumes "x \<noteq> 0"
  shows "\<bar>x\<bar> < 2 powr (of_int (expo x) + 1)"
proof -
  have "\<lfloor>log 2 \<bar>x\<bar>\<rfloor> \<le> expo x" by (simp add: expo_def)
  then have "log 2 \<bar>x\<bar> < of_int (expo x) + 1" by (simp add: floor_le_iff)
  then have "2 powr (log 2 \<bar>x\<bar>) < 2 powr (of_int (expo x) + 1)" by simp
  then show ?thesis using assms by simp
qed

lemma expo_le_abs:
  assumes "x \<noteq> 0" and "- 1022 < expo x"
  shows "2 powr of_int (expo x) \<le> \<bar>x\<bar>"
proof -
  from assms(2) have "expo x = \<lfloor>log 2 \<bar>x\<bar>\<rfloor>" by (simp add: expo_def max_def split: if_splits)
  then have "of_int (expo x) \<le> log 2 \<bar>x\<bar>" by simp
  then have "2 powr of_int (expo x) \<le> 2 powr (log 2 \<bar>x\<bar>)" by simp
  then show ?thesis using assms(1) by simp
qed

lemma expo_mono:
  assumes "0 < x" and "x \<le> y"
  shows "expo x \<le> expo y"
proof -
  have "log 2 \<bar>x\<bar> \<le> log 2 \<bar>y\<bar>" using assms by simp
  then have "\<lfloor>log 2 \<bar>x\<bar>\<rfloor> \<le> \<lfloor>log 2 \<bar>y\<bar>\<rfloor>" by (rule floor_mono)
  then show ?thesis by (simp add: expo_def)
qed

lemma ulp_pos: "0 < ulp x"
  by (simp add: ulp_def)

lemma ulp_nz: "ulp x \<noteq> 0"
  by (simp add: ulp_def)

lemma grid_multiple:
  assumes "expo x - 52 \<le> j"
  shows "of_int m * 2 powr of_int j / ulp x = of_int (m * 2 ^ nat (j - (expo x - 52)))"
proof -
  have "2 powr of_int j / ulp x = 2 powr (of_int j - of_int (expo x - 52))"
    by (simp add: ulp_def powr_diff)
  also have "of_int j - of_int (expo x - 52) = real (nat (j - (expo x - 52)))"
    using assms by simp
  also have "2 powr real (nat (j - (expo x - 52))) = 2 ^ nat (j - (expo x - 52))"
    by (simp add: powr_realpow)
  finally have "2 powr of_int j / ulp x = 2 ^ nat (j - (expo x - 52))" .
  then have "of_int m * (2 powr of_int j / ulp x) = of_int m * 2 ^ nat (j - (expo x - 52))"
    by simp
  then show ?thesis by simp
qed

lemma nearest_le:
  assumes "x \<noteq> 0" and "x \<le> of_int m * 2 powr of_int j" and "expo x - 52 \<le> j"
  shows "nearest x \<le> of_int m * 2 powr of_int j"
proof -
  let ?b = "of_int m * 2 powr of_int j"
  let ?M = "m * 2 ^ nat (j - (expo x - 52))"
  have b: "?b / ulp x = of_int ?M" using assms(3) by (rule grid_multiple)
  have "x / ulp x \<le> ?b / ulp x" using assms(2) ulp_pos [of x] by (simp add: divide_right_mono)
  then have "rhe (x / ulp x) \<le> rhe (of_int ?M)" unfolding b by (rule rhe_mono)
  then have "rhe (x / ulp x) \<le> ?M" by (simp only: rhe_of_int)
  then have "real_of_int (rhe (x / ulp x)) \<le> of_int ?M" by (simp only: of_int_le_iff)
  then have "of_int (rhe (x / ulp x)) * ulp x \<le> of_int ?M * ulp x"
    using ulp_pos [of x] by (simp add: mult_right_mono)
  also have "of_int ?M * ulp x = ?b" unfolding b [symmetric] using ulp_nz [of x] by simp
  finally show ?thesis using assms(1) by (simp add: nearest_def)
qed

lemma nearest_ge:
  assumes "x \<noteq> 0" and "of_int m * 2 powr of_int j \<le> x" and "expo x - 52 \<le> j"
  shows "of_int m * 2 powr of_int j \<le> nearest x"
proof -
  let ?b = "of_int m * 2 powr of_int j"
  let ?M = "m * 2 ^ nat (j - (expo x - 52))"
  have b: "?b / ulp x = of_int ?M" using assms(3) by (rule grid_multiple)
  have "?b / ulp x \<le> x / ulp x" using assms(2) ulp_pos [of x] by (simp add: divide_right_mono)
  then have "rhe (of_int ?M) \<le> rhe (x / ulp x)" unfolding b by (rule rhe_mono)
  then have "?M \<le> rhe (x / ulp x)" by (simp only: rhe_of_int)
  then have "of_int ?M \<le> real_of_int (rhe (x / ulp x))" by (simp only: of_int_le_iff)
  then have "of_int ?M * ulp x \<le> of_int (rhe (x / ulp x)) * ulp x"
    using ulp_pos [of x] by (simp add: mult_right_mono)
  moreover have "of_int ?M * ulp x = ?b" unfolding b [symmetric] using ulp_nz [of x] by simp
  ultimately have "?b \<le> of_int (rhe (x / ulp x)) * ulp x" by (simp only:)
  then show ?thesis using assms(1) by (simp only: nearest_def if_False)
qed

lemma nearest_nonneg: "0 \<le> x \<Longrightarrow> 0 \<le> nearest x"
proof (cases "x = 0")
  case True
  then show ?thesis by (simp add: nearest_def)
next
  case False
  assume "0 \<le> x"
  then have "0 \<le> x / ulp x" using ulp_pos [of x] by simp
  then have "rhe 0 \<le> rhe (x / ulp x)" by (rule rhe_mono)
  then have "0 \<le> rhe (x / ulp x)" by (simp add: rhe_def)
  then show ?thesis using False ulp_pos [of x] by (simp add: nearest_def)
qed

lemma nearest_nonpos: "x \<le> 0 \<Longrightarrow> nearest x \<le> 0"
proof (cases "x = 0")
  case True
  then show ?thesis by (simp add: nearest_def)
next
  case False
  assume "x \<le> 0"
  then have "x / ulp x \<le> 0" using ulp_pos [of x] by (simp add: divide_nonpos_pos)
  then have "rhe (x / ulp x) \<le> rhe 0" by (rule rhe_mono)
  then have "rhe (x / ulp x) \<le> 0" by (simp add: rhe_def)
  then have "real_of_int (rhe (x / ulp x)) \<le> 0" by simp
  then show ?thesis using False ulp_pos [of x] by (simp add: nearest_def mult_le_0_iff)
qed

lemma nearest_mono:
  assumes "0 \<le> x" and "x \<le> y"
  shows "nearest x \<le> nearest y"
proof (cases "x = 0")
  case True
  with assms nearest_nonneg [of y] show ?thesis by (simp add: nearest_def)
next
  case False
  with assms have x: "0 < x" and y: "0 < y" by simp_all
  have ee: "expo x \<le> expo y" using x assms(2) by (rule expo_mono)
  show ?thesis
  proof (cases "expo x = expo y")
    case True
    then have u: "ulp x = ulp y" by (simp add: ulp_def)
    have "x / ulp y \<le> y / ulp y" using assms(2) ulp_pos [of y] by (simp add: divide_right_mono)
    then have "rhe (x / ulp y) \<le> rhe (y / ulp y)" by (rule rhe_mono)
    then have "real_of_int (rhe (x / ulp y)) \<le> of_int (rhe (y / ulp y))" by simp
    then have "of_int (rhe (x / ulp y)) * ulp y \<le> of_int (rhe (y / ulp y)) * ulp y"
      using ulp_pos [of y] by (simp add: mult_right_mono)
    then show ?thesis using x y u by (simp add: nearest_def)
  next
    case False
    with ee have lt: "expo x + 1 \<le> expo y" by simp
    have "x \<le> of_int 1 * 2 powr of_int (expo x + 1)"
      using abs_less_expo [of x] x by simp
    then have a: "nearest x \<le> of_int 1 * 2 powr of_int (expo x + 1)"
      using x by (intro nearest_le) simp_all
    have "- 1022 \<le> expo x" by (simp add: expo_def)
    with lt have "- 1022 < expo y" by simp
    then have "of_int 1 * 2 powr of_int (expo y) \<le> y"
      using expo_le_abs [of y] y by simp
    then have b: "of_int 1 * 2 powr of_int (expo y) \<le> nearest y"
      using y by (intro nearest_ge) simp_all
    have c: "(2::real) powr of_int (expo x + 1) \<le> 2 powr of_int (expo y)"
      using lt by simp
    from a b c show ?thesis by linarith
  qed
qed

lemma js_le_trans: "js_le a b \<Longrightarrow> js_le b c \<Longrightarrow> js_le a c"
  by (cases a; cases b; cases c) simp_all

lemma js_le_refl: "a \<noteq> NaN \<Longrightarrow> js_le a a"
  by (cases a) simp_all

lemma round64_not_NaN: "round64 x \<noteq> NaN"
  by (simp add: round64_def Let_def)

lemma round64_exact:
  assumes "x = of_int m * 2 powr of_int j" and "\<bar>x\<bar> < 2 powr (of_int j + 53)"
    and "- 1074 \<le> j" and "j \<le> 970"
  shows "round64 x = Num x"
proof (cases "x = 0")
  case True
  then show ?thesis by (simp add: round64_def nearest_def)
next
  case False
  have "\<bar>x\<bar> < 2 powr (of_int (j + 52) + 1)" using assms(2) by (simp add: add.commute)
  then have "expo x \<le> j + 52" using False assms(3) by (intro expo_le) simp_all
  then have e: "expo x - 52 \<le> j" by simp
  have "nearest x \<le> of_int m * 2 powr of_int j"
    using False assms(1) e by (intro nearest_le) simp_all
  moreover have "of_int m * 2 powr of_int j \<le> nearest x"
    using False assms(1) e by (intro nearest_ge) simp_all
  ultimately have n: "nearest x = x" using assms(1) by simp
  have p: "(2::real) powr 1024 = 2 ^ 1024" by simp
  have "(2::real) powr (of_int j + 53) \<le> 2 powr 1024"
    by (rule powr_mono) (use assms(4) in simp_all)
  with assms(2) have "\<bar>x\<bar> < 2 powr 1024" by (rule less_le_trans)
  then have "\<bar>x\<bar> < 2 ^ 1024" by (simp only: p)
  then show ?thesis using n by (simp add: round64_def)
qed

lemma round64_mono:
  assumes "0 \<le> x" and "x \<le> y"
  shows "js_le (round64 x) (round64 y)"
proof -
  have n: "nearest x \<le> nearest y" using assms by (rule nearest_mono)
  have nx: "0 \<le> nearest x" using assms(1) by (rule nearest_nonneg)
  show ?thesis
  proof (cases "2 ^ 1024 \<le> \<bar>nearest y\<bar>")
    case True
    have "0 < y"
    proof (rule ccontr)
      assume "\<not> 0 < y"
      with assms have "y = 0" by simp
      with True show False by (simp add: nearest_def)
    qed
    with True have "round64 y = PosInf" by (simp add: round64_def)
    then show ?thesis using round64_not_NaN [of x] by (cases "round64 x") simp_all
  next
    case False
    with n nx have "\<not> 2 ^ 1024 \<le> \<bar>nearest x\<bar>" by simp
    with False n show ?thesis by (simp add: round64_def)
  qed
qed

lemma round64_nonpos:
  assumes "x \<le> 0"
  shows "js_le (round64 x) (Num 0)"
  using assms nearest_nonpos [of x] by (simp add: round64_def Let_def)

lemma round64_0: "round64 0 = Num 0"
  by (simp add: round64_def nearest_def)

lemma round64_between:
  assumes "js_le (Num a) (round64 x)" and "js_le (round64 x) (Num b)"
  obtains s where "round64 x = Num s" and "a \<le> s" and "s \<le> b"
  using assms by (cases "round64 x") simp_all

lemma round64_half: "round64 (1 / 2) = Num (1 / 2)"
  using round64_exact [of "1 / 2" 1 "- 1"] by simp

lemma round64_three_quarters: "round64 (3 / 4) = Num (3 / 4)"
  using round64_exact [of "3 / 4" 3 "- 2"] by (simp add: powr_neg_numeral)

lemma round64_five_quarters: "round64 (5 / 4) = Num (5 / 4)"
  using round64_exact [of "5 / 4" 5 "- 2"] by (simp add: powr_neg_numeral)

lemma jitterFactor_range:
  assumes "0 \<le> r" and "r < 1"
  obtains f where "js_add (Num 0.75) (js_mul (Num r) (Num 0.5)) = Num f"
    and "0.75 \<le> f" and "f \<le> 1.25"
proof -
  have "js_le (round64 0) (round64 (r * 0.5))" using assms by (intro round64_mono) simp_all
  moreover have "js_le (round64 (r * 0.5)) (round64 (1 / 2))"
    using assms by (intro round64_mono) simp_all
  ultimately obtain s where s: "round64 (r * 0.5) = Num s" "0 \<le> s" "s \<le> 1 / 2"
    using round64_between [of 0 "r * 0.5" "1 / 2"] by (auto simp: round64_0 round64_half)
  have "js_le (round64 (3 / 4)) (round64 (0.75 + s))" using s by (intro round64_mono) simp_all
  moreover have "js_le (round64 (0.75 + s)) (round64 (5 / 4))"
    using s by (intro round64_mono) simp_all
  ultimately obtain f where f: "round64 (0.75 + s) = Num f" "3 / 4 \<le> f" "f \<le> 5 / 4"
    using round64_between [of "3 / 4" "0.75 + s" "5 / 4"]
    by (auto simp: round64_three_quarters round64_five_quarters)
  have "js_add (Num 0.75) (js_mul (Num r) (Num 0.5)) = Num f" using s f by simp
  with f that show ?thesis by simp
qed


text \<open>The binary64 values that the examples below meet are kept by the rounding.\<close>

lemma round64_1000: "round64 1000 = Num 1000"
  using round64_exact [of 1000 1000 0] by simp

lemma round64_10: "round64 10 = Num 10"
  using round64_exact [of 10 10 0] by simp

lemma round64_1: "round64 1 = Num 1"
  using round64_exact [of 1 1 0] by simp

lemma round64_quarter: "round64 (1 / 4) = Num (1 / 4)"
  using round64_exact [of "1 / 4" 1 "- 2"] by (simp add: powr_neg_numeral)

lemma round64_7_16: "round64 (7 / 16) = Num (7 / 16)"
  using round64_exact [of "7 / 16" 7 "- 4"] by (simp add: powr_neg_numeral)

lemma round64_19_16: "round64 (19 / 16) = Num (19 / 16)"
  using round64_exact [of "19 / 16" 19 "- 4"] by (simp add: powr_neg_numeral)

lemma round64_2375_2: "round64 (2375 / 2) = Num (2375 / 2)"
  using round64_exact [of "2375 / 2" 2375 "- 1"] by (simp add: powr_neg_numeral)

lemma round64_1_128: "round64 (1 / 128) = Num (1 / 128)"
  using round64_exact [of "1 / 128" 1 "- 7"] by (simp add: powr_neg_numeral)

lemma round64_97_128: "round64 (97 / 128) = Num (97 / 128)"
  using round64_exact [of "97 / 128" 97 "- 7"] by (simp add: powr_neg_numeral)

lemma round64_485_64: "round64 (485 / 64) = Num (485 / 64)"
  using round64_exact [of "485 / 64" 485 "- 6"] by (simp add: powr_neg_numeral)

lemma round64_15_2: "round64 (15 / 2) = Num (15 / 2)"
  using round64_exact [of "15 / 2" 15 "- 1"] by (simp add: powr_neg_numeral)

lemma round64_12500: "round64 12500 = Num 12500"
  using round64_exact [of 12500 12500 0] by simp

lemmas round64_values = round64_1000 round64_10 round64_1 round64_quarter round64_7_16
  round64_19_16 round64_2375_2 round64_1_128 round64_97_128 round64_485_64 round64_15_2
  round64_12500 round64_half round64_three_quarters round64_five_quarters round64_0

text \<open>
  A tie: the exact product below lies halfway between two binary64 values and goes to
  the even one, 811.
\<close>

lemma expo_eq:
  assumes "2 powr of_int k \<le> \<bar>x\<bar>" and "\<bar>x\<bar> < 2 powr (of_int k + 1)" and "- 1022 \<le> k"
  shows "expo x = k"
proof -
  have "0 < (2::real) powr of_int k" by simp
  with assms(1) have pos: "0 < \<bar>x\<bar>" by linarith
  then have nz: "x \<noteq> 0" by simp
  have le: "expo x \<le> k" using nz assms(2,3) by (rule expo_le)
  have "2 powr of_int k \<le> 2 powr (log 2 \<bar>x\<bar>)" using assms(1) nz by simp
  then have "of_int k \<le> log 2 \<bar>x\<bar>" by simp
  then have "k \<le> \<lfloor>log 2 \<bar>x\<bar>\<rfloor>" by (simp add: le_floor_iff)
  then have "k \<le> expo x" by (simp add: expo_def)
  with le show ?thesis by simp
qed

lemma round64_tie_811:
  "round64 (1000 * (114138103056171 / 2 ^ 47)) = Num 811"
proof -
  let ?x = "1000 * (114138103056171 / 2 ^ 47) :: real"
  have e: "expo ?x = 9"
    by (rule expo_eq) (simp_all add: powr_numeral)
  then have u: "ulp ?x = 1 / 2 ^ 43" by (simp add: ulp_def powr_neg_numeral)
  have q: "?x / ulp ?x = 14267262882021375 / 2" unfolding u by simp
  have fl: "\<lfloor>14267262882021375 / 2 :: real\<rfloor> = 7133631441010687" by simp
  have r: "rhe (14267262882021375 / 2) = 7133631441010688"
    by (subst rhe_def, simp only: Let_def fl) simp
  have "nearest ?x = of_int (rhe (?x / ulp ?x)) * ulp ?x" by (simp add: nearest_def)
  also have "\<dots> = 811" by (simp only: q r, simp only: u, simp)
  finally have "nearest ?x = 811" .
  then show ?thesis by (simp add: round64_def)
qed

text \<open>\<open>Math.floor\<close>, \<open>Math.min\<close> and the scaling of a capped delay by the jitter factor.\<close>

lemma Math_floor_le: "z \<noteq> NaN \<Longrightarrow> js_le (Math_floor z) z"
  by (cases z) simp_all

lemma Math_floor_NaN: "Math_floor z = NaN \<longleftrightarrow> z = NaN"
  by (cases z) simp_all

lemma Math_min_le_right: "Math_min a b \<noteq> NaN \<Longrightarrow> js_le (Math_min a b) b"
  by (cases a; cases b) simp_all

lemma js_mul_NaN_left: "js_mul NaN b = NaN"
  by simp

lemma scaled_le:
  assumes e: "js_le e m" and m: "js_le (Num 0) m"
    and f: "0.75 \<le> f" "f \<le> 1.25"
  shows "js_le (js_mul e (Num f)) (js_mul m (Num 1.25))"
proof (cases m)
  case NaN
  with m show ?thesis by simp
next
  case NegInf
  with m show ?thesis by simp
next
  case PosInf
  have "js_mul e (Num f) \<noteq> NaN"
    using e f round64_not_NaN by (cases e) auto
  then show ?thesis using PosInf by (cases "js_mul e (Num f)") simp_all
next
  case (Num y)
  with m have y: "0 \<le> y" by simp
  have top: "js_le (Num 0) (round64 (y * 1.25))"
    using round64_mono [of 0 "y * 1.25"] y by (simp add: round64_0)
  show ?thesis
  proof (cases e)
    case NaN
    with e show ?thesis by simp
  next
    case PosInf
    with e Num show ?thesis by simp
  next
    case NegInf
    have "js_mul NegInf (Num f) = NegInf" using f by simp
    then show ?thesis using NegInf Num round64_not_NaN [of "y * 1.25"]
      by (cases "round64 (y * 1.25)") simp_all
  next
    case (Num x)
    with e \<open>m = Num y\<close> have xy: "x \<le> y" by simp
    show ?thesis
    proof (cases "0 \<le> x")
      case True
      have "x * f \<le> x * 1.25" using True f by (intro mult_left_mono) simp_all
      also have "\<dots> \<le> y * 1.25" using xy by simp
      finally have "x * f \<le> y * 1.25" .
      moreover have "0 \<le> x * f" using True f by simp
      ultimately have "js_le (round64 (x * f)) (round64 (y * 1.25))" by (intro round64_mono)
      then show ?thesis using Num \<open>m = Num y\<close> by simp
    next
      case False
      then have "x * f \<le> 0" using f by (simp add: mult_le_0_iff)
      then have "js_le (round64 (x * f)) (Num 0)" by (rule round64_nonpos)
      then have "js_le (round64 (x * f)) (round64 (y * 1.25))" using top by (rule js_le_trans)
      then show ?thesis using Num \<open>m = Num y\<close> by simp
    qed
  qed
qed

section \<open>The retry delay\<close>

text \<open>
  C2, as the code has it. Without jitter the delay is at most \<open>maxDelay\<close>, unless it is
  \<open>NaN\<close>. With jitter the capped delay is scaled by a factor up to 1.25 after the cap, so
  the delay is at most \<open>maxDelay * 1.25\<close> (for a \<open>maxDelay\<close> that is not negative and a
  random number in \<open>[0, 1)\<close>), unless it is \<open>NaN\<close>.
\<close>

theorem calculateDelay_bound:
  "(\<not> jitter cfg \<and> calculateDelay pw attempt cfg r \<noteq> NaN
      \<longrightarrow> js_le (calculateDelay pw attempt cfg r) (maxDelay cfg))
   \<and> (jitter cfg \<and> 0 \<le> r \<and> r < 1 \<and> js_le (Num 0) (maxDelay cfg)
        \<and> calculateDelay pw attempt cfg r \<noteq> NaN
      \<longrightarrow> js_le (calculateDelay pw attempt cfg r) (js_mul (maxDelay cfg) (Num 1.25)))"
proof -
  define e where
    "e = Math_min (js_mul (initialDelay cfg) (Math_pow pw (backoffFactor cfg) (attempt - 1)))
                  (maxDelay cfg)"
  have plain: "js_le (calculateDelay pw attempt cfg r) (maxDelay cfg)"
    if "\<not> jitter cfg \<and> calculateDelay pw attempt cfg r \<noteq> NaN"
    using that by (auto simp: calculateDelay_def Let_def intro: Math_min_le_right)
  have jittered: "js_le (calculateDelay pw attempt cfg r) (js_mul (maxDelay cfg) (Num 1.25))"
    if a: "jitter cfg \<and> 0 \<le> r \<and> r < 1 \<and> js_le (Num 0) (maxDelay cfg)
        \<and> calculateDelay pw attempt cfg r \<noteq> NaN"
  proof -
    from a obtain f where f: "js_add (Num 0.75) (js_mul (Num r) (Num 0.5)) = Num f"
        "0.75 \<le> f" "f \<le> 1.25"
      using jitterFactor_range [of r] by blast
    have d: "calculateDelay pw attempt cfg r = Math_floor (js_mul e (Num f))"
      using a f(1) by (simp add: calculateDelay_def Let_def e_def)
    with a have nn: "js_mul e (Num f) \<noteq> NaN" by (simp add: Math_floor_NaN)
    then have "e \<noteq> NaN" by auto
    then have "js_le e (maxDelay cfg)" unfolding e_def by (rule Math_min_le_right)
    then have "js_le (js_mul e (Num f)) (js_mul (maxDelay cfg) (Num 1.25))"
      using a f(2,3) by (intro scaled_le) simp_all
    with Math_floor_le [OF nn] show ?thesis unfolding d by (rule js_le_trans)
  qed
  from plain jittered show ?thesis by blast
qed

theorem calculateDelay_bound_witness:
  "js_le (calculateDelay (\<lambda>base n. NaN) 1 (DEFAULT_RETRY_CONFIG \<lparr> jitter := False \<rparr>) (1 / 2))
         (Num 10000)
   \<and> js_le (calculateDelay (\<lambda>base n. NaN) 1 DEFAULT_RETRY_CONFIG (1 / 2)) (Num 12500)"
proof -
  have v1: "calculateDelay (\<lambda>base n. NaN) 1 (DEFAULT_RETRY_CONFIG \<lparr> jitter := False \<rparr>) (1 / 2)
      = Num 1000"
    by (simp add: calculateDelay_def Let_def Math_pow_def DEFAULT_RETRY_CONFIG_def round64_values)
  have "1 / 2 * (5 / 10) = (1 / 4 :: real)" "75 / 100 + 1 / 4 = (1 :: real)" by simp_all
  then have v2: "calculateDelay (\<lambda>base n. NaN) 1 DEFAULT_RETRY_CONFIG (1 / 2) = Num 1000"
    by (simp add: calculateDelay_def Let_def Math_pow_def DEFAULT_RETRY_CONFIG_def round64_values)
  have m: "js_mul (maxDelay DEFAULT_RETRY_CONFIG) (Num 1.25) = Num 12500"
  proof -
    have "10000 * (125 / 100) = (12500 :: real)" by simp
    then show ?thesis by (simp add: DEFAULT_RETRY_CONFIG_def round64_values)
  qed
  note b = calculateDelay_bound
    [where cfg = "DEFAULT_RETRY_CONFIG \<lparr> jitter := False \<rparr>" and pw = "\<lambda>base n. NaN"
       and attempt = 1 and r = "1 / 2", THEN conjunct1, rule_format]
  note c = calculateDelay_bound
    [where cfg = DEFAULT_RETRY_CONFIG and pw = "\<lambda>base n. NaN"
       and attempt = 1 and r = "1 / 2", THEN conjunct2, rule_format]
  have 1: "js_le (calculateDelay (\<lambda>base n. NaN) 1 (DEFAULT_RETRY_CONFIG \<lparr> jitter := False \<rparr>) (1 / 2))
         (maxDelay (DEFAULT_RETRY_CONFIG \<lparr> jitter := False \<rparr>))"
    by (rule b, unfold v1) (simp add: DEFAULT_RETRY_CONFIG_def)
  have 2: "js_le (calculateDelay (\<lambda>base n. NaN) 1 DEFAULT_RETRY_CONFIG (1 / 2))
         (js_mul (maxDelay DEFAULT_RETRY_CONFIG) (Num 1.25))"
    by (rule c, unfold v2) (simp add: DEFAULT_RETRY_CONFIG_def)
  have md: "maxDelay (DEFAULT_RETRY_CONFIG \<lparr> jitter := False \<rparr>) = Num 10000"
    by (simp add: DEFAULT_RETRY_CONFIG_def)
  from 1 2 show ?thesis unfolding m md by simp
qed

text \<open>
  C2 as it is written fails with jitter: for \<open>initialDelay = maxDelay = 1000\<close> and the
  random number 0.875 the jitter factor is 1.1875 and the delay before attempt 2 is 1187.
  (\<open>Math.pow\<close> is called with the exponent 0 only, so the function given for the other
  exponents is not consulted; every intermediate value is a binary64 value.)
\<close>

theorem calculateDelay_exceeds_maxDelay:
  "calculateDelay (\<lambda>base n. NaN) 1
      \<lparr> maxAttempts = 3, initialDelay = Num 1000, maxDelay = Num 1000, backoffFactor = Num 2,
        jitter = True, retryableErrors = isRetryableError \<rparr> (7 / 8) = Num 1187
   \<and> \<not> js_le (calculateDelay (\<lambda>base n. NaN) 1
      \<lparr> maxAttempts = 3, initialDelay = Num 1000, maxDelay = Num 1000, backoffFactor = Num 2,
        jitter = True, retryableErrors = isRetryableError \<rparr> (7 / 8))
      (maxDelay \<lparr> maxAttempts = 3, initialDelay = Num 1000, maxDelay = Num 1000, backoffFactor = Num 2,
        jitter = True, retryableErrors = isRetryableError \<rparr>)"
proof -
  have "7 / 8 * (5 / 10) = (7 / 16 :: real)" "75 / 100 + 7 / 16 = (19 / 16 :: real)"
    "1000 * (19 / 16) = (2375 / 2 :: real)" by simp_all
  then show ?thesis
    by (simp add: calculateDelay_def Let_def Math_pow_def round64_values)
qed

text \<open>
  The product is rounded before \<open>Math.floor\<close>: for the default configuration and the random
  number \<open>8584986789675 / 2 ^ 46\<close> the delay is 811, where the floor of the exact product
  is 810. And a delay can be \<open>NaN\<close>: with \<open>initialDelay = 0\<close>, once \<open>Math.pow\<close> has
  overflowed to infinity.
\<close>

lemma calculateDelay_rounds_before_floor:
  "calculateDelay pw 1 DEFAULT_RETRY_CONFIG (8584986789675 / 2 ^ 46) = Num 811
   \<and> \<lfloor>1000 * (0.75 + 8584986789675 / 2 ^ 46 * 0.5 :: real)\<rfloor> = 810"
proof -
  have a: "round64 (8584986789675 / 2 ^ 46 * (5 / 10)) = Num (8584986789675 / 2 ^ 47)"
    using round64_exact [of "8584986789675 / 2 ^ 47" 8584986789675 "- 47"]
    by (simp add: powr_neg_numeral)
  have b: "round64 (75 / 100 + 8584986789675 / 2 ^ 47) = Num (114138103056171 / 2 ^ 47)"
    using round64_exact [of "114138103056171 / 2 ^ 47" 114138103056171 "- 47"]
    by (simp add: powr_neg_numeral)
  have "calculateDelay pw 1 DEFAULT_RETRY_CONFIG (8584986789675 / 2 ^ 46)
      = Math_floor (round64 (1000 * (114138103056171 / 2 ^ 47)))"
    using a b
    by (simp add: calculateDelay_def Let_def Math_pow_def DEFAULT_RETRY_CONFIG_def round64_values)
  then have "calculateDelay pw 1 DEFAULT_RETRY_CONFIG (8584986789675 / 2 ^ 46) = Num 811"
    by (simp only: round64_tie_811 Math_floor.simps) simp
  moreover have "\<lfloor>1000 * (0.75 + 8584986789675 / 2 ^ 46 * 0.5 :: real)\<rfloor> = 810"
    by simp
  ultimately show ?thesis by simp
qed

lemma calculateDelay_NaN:
  assumes "pw (Num 2) 1025 = PosInf"
  shows "calculateDelay pw 1026
           \<lparr> maxAttempts = 2000, initialDelay = Num 0, maxDelay = Num 10000, backoffFactor = Num 2,
             jitter = False, retryableErrors = isRetryableError \<rparr> r = NaN"
  using assms by (simp add: calculateDelay_def Let_def Math_pow_def)

section \<open>The retry loop\<close>


lemma after_loop_printable:
  "warn_context_throws e = None \<Longrightarrow>
   after_loop (Some e) n sl = \<lparr> outcome = Inl (Some e), invocations = n, sleeps = sl \<rparr>"
  by (simp add: after_loop_def logger_error_throws_def warn_context_throws_def)

lemma retry_loop_after_failures:
  assumes "\<forall>i<k. \<exists>e. operation i = Inl e \<and> warn_context_throws e = None \<and> retryableErrors cfg e"
    and "int k < maxAttempts cfg"
  shows "RetryMechanism_execute pw operation cfg rnd =
         retry_loop pw operation cfg rnd (int k + 1)
           (if k = 0 then None else Some (projl (operation (k - 1)))) k
           (map (\<lambda>i. calculateDelay pw (int i + 1) cfg (rnd i)) [0 ..< k])"
  using assms
proof (induction k)
  case 0
  show ?case by (simp add: RetryMechanism_execute_def)
next
  case (Suc k)
  from Suc.prems obtain e where e: "operation k = Inl e" "warn_context_throws e = None"
      "retryableErrors cfg e"
    by auto
  from Suc.prems have lt: "int k + 1 < maxAttempts cfg" by simp
  have "RetryMechanism_execute pw operation cfg rnd =
        retry_loop pw operation cfg rnd (int k + 1)
          (if k = 0 then None else Some (projl (operation (k - 1)))) k
          (map (\<lambda>i. calculateDelay pw (int i + 1) cfg (rnd i)) [0 ..< k])"
    using Suc.IH Suc.prems by simp
  also have "\<dots> = retry_loop pw operation cfg rnd (int k + 1 + 1) (Some e) (k + 1)
          (map (\<lambda>i. calculateDelay pw (int i + 1) cfg (rnd i)) [0 ..< k]
           @ [calculateDelay pw (int k + 1) cfg (rnd k)])"
    using e lt by (subst retry_loop.simps) simp
  finally show ?case using e by (simp add: add.commute)
qed






text \<open>
  C5 at an operation whose first call rejects with \<open>Object.create(null)\<close> and whose second
  call would succeed, under a configuration that retries every error, with three
  attempts allowed. The \<open>catch\<close> block builds the context of its log statement with
  \<open>String(error)\<close>, which throws a \<open>TypeError\<close> for this value: \<open>execute\<close> rejects with the
  \<open>TypeError\<close> after one call and never retries.
\<close>

theorem retry_log_conversion_aborts_retry:
  "retryableErrors \<lparr> maxAttempts = 3, initialDelay = Num 1000, maxDelay = Num 10000,
                     backoffFactor = Num 2, jitter = True, retryableErrors = (\<lambda>e. True) \<rparr>
      (Unprintable (PlainError \<lparr> name = ''TypeError'',
                                 message = ''Cannot convert object to primitive value'' \<rparr>))
   \<and> RetryMechanism_execute pw
        (\<lambda>n. if n = 0
              then Inl (Unprintable (PlainError \<lparr> name = ''TypeError'',
                          message = ''Cannot convert object to primitive value'' \<rparr>))
              else Inr ''ok'')
        \<lparr> maxAttempts = 3, initialDelay = Num 1000, maxDelay = Num 10000,
          backoffFactor = Num 2, jitter = True, retryableErrors = (\<lambda>e. True) \<rparr> rnd
      = \<lparr> outcome = Inl (Some (PlainError \<lparr> name = ''TypeError'',
                          message = ''Cannot convert object to primitive value'' \<rparr>)),
          invocations = 1, sleeps = [] \<rparr>"
  unfolding RetryMechanism_execute_def
  by (subst retry_loop.simps)
     (simp add: warn_context_throws_def instanceof_Error_def String_throws_def)

theorem retry_log_conversion_aborts_retry_witness:
  "invocations (RetryMechanism_execute (\<lambda>base n. NaN)
        (\<lambda>n. if n = 0
              then Inl (Unprintable (PlainError \<lparr> name = ''TypeError'',
                          message = ''Cannot convert object to primitive value'' \<rparr>))
              else Inr ''ok'')
        \<lparr> maxAttempts = 3, initialDelay = Num 1000, maxDelay = Num 10000,
          backoffFactor = Num 2, jitter = True, retryableErrors = (\<lambda>e. True) \<rparr> (\<lambda>k. 1 / 2)) = 1"
  using retry_log_conversion_aborts_retry [of "\<lambda>base n. NaN" "\<lambda>k. 1 / 2"] by simp

text \<open>
  C6 at an operation that rejects with \<open>Object.create(null)\<close>, under the default
  configuration, for which this value is not retryable. \<open>execute\<close> calls the operation
  once, but what it rejects with is the \<open>TypeError\<close> that \<open>String(error)\<close> throws in the
  log statement, not the value the operation rejected with.
\<close>

theorem retry_log_conversion_replaces_error:
  "\<not> retryableErrors DEFAULT_RETRY_CONFIG
        (Unprintable (PlainError \<lparr> name = ''TypeError'',
                         message = ''Cannot convert object to primitive value'' \<rparr>))
   \<and> RetryMechanism_execute pw
        (\<lambda>n. Inl (Unprintable (PlainError \<lparr> name = ''TypeError'',
                          message = ''Cannot convert object to primitive value'' \<rparr>)) :: js_value + string)
        DEFAULT_RETRY_CONFIG rnd
      = \<lparr> outcome = Inl (Some (PlainError \<lparr> name = ''TypeError'',
                          message = ''Cannot convert object to primitive value'' \<rparr>)),
          invocations = 1, sleeps = [] \<rparr>"
  unfolding RetryMechanism_execute_def
  by (subst retry_loop.simps)
     (simp add: warn_context_throws_def instanceof_Error_def String_throws_def
        DEFAULT_RETRY_CONFIG_def isRetryableError_def)

theorem retry_log_conversion_replaces_error_witness:
  "outcome (RetryMechanism_execute (\<lambda>base n. NaN)
        (\<lambda>n. Inl (Unprintable (PlainError \<lparr> name = ''TypeError'',
                          message = ''Cannot convert object to primitive value'' \<rparr>)) :: js_value + string)
        DEFAULT_RETRY_CONFIG (\<lambda>k. 1 / 2))
   \<noteq> Inl (Some (Unprintable (PlainError \<lparr> name = ''TypeError'',
                          message = ''Cannot convert object to primitive value'' \<rparr>)))"
  using retry_log_conversion_replaces_error [of "\<lambda>base n. NaN" "\<lambda>k. 1 / 2"] by simp

text \<open>
  For the errors that the log statement can convert (every \<open>Error\<close>, and every other value
  but the \<open>Unprintable\<close> ones) the loop retries as documented. With \<open>maxAttempts = N\<close>, an
  operation whose first \<open>k < N\<close> calls fail with such a retryable error and whose call
  \<open>k + 1\<close> succeeds is called exactly \<open>k + 1\<close> times, and \<open>execute\<close> resolves with the
  result of the last call.
\<close>

theorem retry_succeeds_after_failures:
  assumes "int k < maxAttempts cfg"
    and "\<forall>i<k. \<exists>e. operation i = Inl e \<and> warn_context_throws e = None \<and> retryableErrors cfg e"
    and "operation k = Inr v"
  shows "outcome (RetryMechanism_execute pw operation cfg rnd) = Inr v
       \<and> invocations (RetryMechanism_execute pw operation cfg rnd) = k + 1"
proof -
  have "RetryMechanism_execute pw operation cfg rnd =
         retry_loop pw operation cfg rnd (int k + 1)
           (if k = 0 then None else Some (projl (operation (k - 1)))) k
           (map (\<lambda>i. calculateDelay pw (int i + 1) cfg (rnd i)) [0 ..< k])"
    using assms(1,2) by (intro retry_loop_after_failures) auto
  also have "\<dots> = \<lparr> outcome = Inr v, invocations = k + 1,
                     sleeps = map (\<lambda>i. calculateDelay pw (int i + 1) cfg (rnd i)) [0 ..< k] \<rparr>"
    using assms(1,3) by (subst retry_loop.simps) simp
  finally show ?thesis by simp
qed

theorem retry_succeeds_after_failures_witness:
  "outcome (RetryMechanism_execute (\<lambda>base n. NaN)
      (\<lambda>n. if n < 2 then Inl (PlainError \<lparr> name = ''NetworkError'', message = ''socket hang up'' \<rparr>)
            else Inr ''case-42'')
      DEFAULT_RETRY_CONFIG (\<lambda>k. 1 / 2)) = Inr ''case-42''
   \<and> invocations (RetryMechanism_execute (\<lambda>base n. NaN)
      (\<lambda>n. if n < 2 then Inl (PlainError \<lparr> name = ''NetworkError'', message = ''socket hang up'' \<rparr>)
            else Inr ''case-42'')
      DEFAULT_RETRY_CONFIG (\<lambda>k. 1 / 2)) = 3"
proof -
  let ?op = "\<lambda>n::nat. if n < 2
      then Inl (PlainError \<lparr> name = ''NetworkError'', message = ''socket hang up'' \<rparr>)
      else (Inr ''case-42'' :: js_value + string)"
  have h1: "int 2 < maxAttempts DEFAULT_RETRY_CONFIG"
    by (simp add: DEFAULT_RETRY_CONFIG_def)
  have h2: "\<forall>i<2. \<exists>e. ?op i = Inl e \<and> warn_context_throws e = None
      \<and> retryableErrors DEFAULT_RETRY_CONFIG e"
    by (simp add: DEFAULT_RETRY_CONFIG_def isRetryableError_def warn_context_throws_def
          instanceof_Error_def)
  have h3: "?op 2 = Inr ''case-42''" by simp
  from retry_succeeds_after_failures [OF h1 h2 h3] show ?thesis by simp
qed

text \<open>
  With \<open>maxAttempts \<ge> 1\<close>, when the first call fails with such an error that
  \<open>retryableErrors\<close> rejects, \<open>execute\<close> calls the operation once, sleeps never and rejects
  with that error itself. When all \<open>maxAttempts\<close> calls fail with such errors (all but the
  last retryable), \<open>execute\<close> makes exactly \<open>maxAttempts\<close> calls and rejects with the error
  of the last one.
\<close>

theorem retry_rethrows_unchanged:
  "(1 \<le> maxAttempts cfg \<and> operation 0 = Inl e \<and> warn_context_throws e = None
      \<and> \<not> retryableErrors cfg e
      \<longrightarrow> RetryMechanism_execute pw operation cfg rnd
            = \<lparr> outcome = Inl (Some e), invocations = 1, sleeps = [] \<rparr>)
   \<and> (maxAttempts cfg = int N \<and> 1 \<le> N
        \<and> (\<forall>i<N - 1. \<exists>e'. operation i = Inl e' \<and> warn_context_throws e' = None
              \<and> retryableErrors cfg e')
        \<and> operation (N - 1) = Inl e \<and> warn_context_throws e = None
      \<longrightarrow> outcome (RetryMechanism_execute pw operation cfg rnd) = Inl (Some e)
          \<and> invocations (RetryMechanism_execute pw operation cfg rnd) = N)"
proof -
  have first: "RetryMechanism_execute pw operation cfg rnd
            = \<lparr> outcome = Inl (Some e), invocations = 1, sleeps = [] \<rparr>"
    if "1 \<le> maxAttempts cfg \<and> operation 0 = Inl e \<and> warn_context_throws e = None
      \<and> \<not> retryableErrors cfg e"
    using that unfolding RetryMechanism_execute_def
    by (subst retry_loop.simps) (simp add: after_loop_printable)
  have exhausted: "outcome (RetryMechanism_execute pw operation cfg rnd) = Inl (Some e)
          \<and> invocations (RetryMechanism_execute pw operation cfg rnd) = N"
    if a: "maxAttempts cfg = int N \<and> 1 \<le> N
        \<and> (\<forall>i<N - 1. \<exists>e'. operation i = Inl e' \<and> warn_context_throws e' = None
              \<and> retryableErrors cfg e')
        \<and> operation (N - 1) = Inl e \<and> warn_context_throws e = None"
  proof -
    from a have lt: "int (N - 1) < maxAttempts cfg" by simp
    have "RetryMechanism_execute pw operation cfg rnd =
           retry_loop pw operation cfg rnd (int (N - 1) + 1)
             (if N - 1 = 0 then None else Some (projl (operation (N - 1 - 1)))) (N - 1)
             (map (\<lambda>i. calculateDelay pw (int i + 1) cfg (rnd i)) [0 ..< N - 1])"
      using a lt by (intro retry_loop_after_failures) auto
    also have "\<dots> = \<lparr> outcome = Inl (Some e), invocations = N - 1 + 1,
                       sleeps = map (\<lambda>i. calculateDelay pw (int i + 1) cfg (rnd i)) [0 ..< N - 1] \<rparr>"
      using a by (subst retry_loop.simps) (simp add: of_nat_diff after_loop_printable)
    finally have "RetryMechanism_execute pw operation cfg rnd =
        \<lparr> outcome = Inl (Some e), invocations = N - 1 + 1,
          sleeps = map (\<lambda>i. calculateDelay pw (int i + 1) cfg (rnd i)) [0 ..< N - 1] \<rparr>" .
    with a show ?thesis by simp
  qed
  from first exhausted show ?thesis by blast
qed

theorem retry_rethrows_unchanged_witness:
  "RetryMechanism_execute (\<lambda>base n. NaN) (\<lambda>n. Inl (Str ''invalid argument'') :: js_value + unit)
      AGGRESSIVE_RETRY_CONFIG (\<lambda>k. 1 / 2)
     = \<lparr> outcome = Inl (Some (Str ''invalid argument'')), invocations = 1, sleeps = [] \<rparr>
   \<and> outcome (RetryMechanism_execute (\<lambda>base n. NaN)
        (\<lambda>n. Inl (PlainError \<lparr> name = ''NetworkError'', message = ''down'' \<rparr>) :: js_value + unit)
        DEFAULT_RETRY_CONFIG (\<lambda>k. 1 / 2))
     = Inl (Some (PlainError \<lparr> name = ''NetworkError'', message = ''down'' \<rparr>))
   \<and> invocations (RetryMechanism_execute (\<lambda>base n. NaN)
        (\<lambda>n. Inl (PlainError \<lparr> name = ''NetworkError'', message = ''down'' \<rparr>) :: js_value + unit)
        DEFAULT_RETRY_CONFIG (\<lambda>k. 1 / 2))
     = 3"
proof -
  let ?bad = "\<lambda>n::nat. Inl (Str ''invalid argument'') :: js_value + unit"
  let ?down = "\<lambda>n::nat. Inl (PlainError \<lparr> name = ''NetworkError'', message = ''down'' \<rparr>) :: js_value + unit"
  have a: "1 \<le> maxAttempts AGGRESSIVE_RETRY_CONFIG
      \<and> ?bad 0 = Inl (Str ''invalid argument'')
      \<and> warn_context_throws (Str ''invalid argument'') = None
      \<and> \<not> retryableErrors AGGRESSIVE_RETRY_CONFIG (Str ''invalid argument'')"
    by (simp add: AGGRESSIVE_RETRY_CONFIG_def isRetryableError_def warn_context_throws_def
          instanceof_Error_def String_throws_def)
  have b: "maxAttempts DEFAULT_RETRY_CONFIG = int 3 \<and> 1 \<le> (3::nat)
      \<and> (\<forall>i<3 - 1. \<exists>e'. ?down i = Inl e' \<and> warn_context_throws e' = None
            \<and> retryableErrors DEFAULT_RETRY_CONFIG e')
      \<and> ?down (3 - 1) = Inl (PlainError \<lparr> name = ''NetworkError'', message = ''down'' \<rparr>)
      \<and> warn_context_throws (PlainError \<lparr> name = ''NetworkError'', message = ''down'' \<rparr>) = None"
    by (simp add: DEFAULT_RETRY_CONFIG_def isRetryableError_def warn_context_throws_def
          instanceof_Error_def)
  note first = retry_rethrows_unchanged
      [where cfg = AGGRESSIVE_RETRY_CONFIG and e = "Str ''invalid argument''"
         and operation = ?bad and rnd = "\<lambda>k. 1 / 2" and pw = "\<lambda>base n. NaN",
       THEN conjunct1, rule_format]
  note exhausted = retry_rethrows_unchanged
      [where cfg = DEFAULT_RETRY_CONFIG and N = 3
         and e = "PlainError \<lparr> name = ''NetworkError'', message = ''down'' \<rparr>"
         and operation = ?down and rnd = "\<lambda>k. 1 / 2" and pw = "\<lambda>base n. NaN",
       THEN conjunct2, rule_format]
  from first [OF a] exhausted [OF b] show ?thesis by simp
qed

section \<open>The circuit breaker\<close>

lemmas breaker_defs = CircuitBreaker_execute_def updateState_def resetStats_def onSuccess_def
  onFailure_def DEFAULT_CIRCUIT_CONFIG_def CircuitBreaker_new_def Let_def

text \<open>
  Ten failing calls, 900 ms apart and each settling after 100 ms, on a new breaker with
  the default configuration: the tenth failure opens the circuit, 8200 ms after the
  window started.
\<close>

lemma breaker_opens_after_ten_failures:
  "fold (\<lambda>i cb. breaker (CircuitBreaker_execute cb (1700000000000 + 900 * i) (1700000000000 + 900 * i)
                          (Inl ''boom'' :: string + unit) (1700000000100 + 900 * i)))
        [0, 1, 2, 3, 4, 5, 6, 7, 8, 9]
        (CircuitBreaker_new ''listCases'' DEFAULT_CIRCUIT_CONFIG 1700000000000)
   = \<lparr> breakerName = ''listCases'', config = DEFAULT_CIRCUIT_CONFIG, state = OPEN,
       stats = \<lparr> requests = 10, failures = 10, lastFailureTime = 1700000008200,
                 windowStart = 1700000000000 \<rparr> \<rparr>"
  by (simp add: breaker_defs)

text \<open>
  C1 at that breaker. The circuit is \<open>OPEN\<close> and the next call comes 1801 ms after the
  last failure, long before the \<open>recoveryTimeout\<close> of 60000 ms has elapsed, but more than
  \<open>monitoringPeriod\<close> after the window started: \<open>updateState\<close> resets the statistics,
  \<open>lastFailureTime\<close> with them, the recovery check then compares the clock with 0, and the
  call is not rejected: the operation is called, with the circuit \<open>HALF_OPEN\<close>.
\<close>

theorem breaker_recovery_timeout_bypassed:
  "state \<lparr> breakerName = ''listCases'', config = DEFAULT_CIRCUIT_CONFIG, state = OPEN,
           stats = \<lparr> requests = 10, failures = 10, lastFailureTime = 1700000008200,
                     windowStart = 1700000000000 \<rparr> \<rparr> = OPEN
   \<and> 1700000010001 - 1700000008200 \<le> recoveryTimeout DEFAULT_CIRCUIT_CONFIG
   \<and> CircuitBreaker_execute
        \<lparr> breakerName = ''listCases'', config = DEFAULT_CIRCUIT_CONFIG, state = OPEN,
          stats = \<lparr> requests = 10, failures = 10, lastFailureTime = 1700000008200,
                    windowStart = 1700000000000 \<rparr> \<rparr>
        1700000010001 1700000010001 (Inl ''boom'' :: string + unit) 1700000010101
     = \<lparr> settled = Inl (OperationError ''boom''), invoked = True,
         breaker = \<lparr> breakerName = ''listCases'', config = DEFAULT_CIRCUIT_CONFIG,
                     state = HALF_OPEN,
                     stats = \<lparr> requests = 1, failures = 1, lastFailureTime = 1700000010101,
                               windowStart = 1700000010001 \<rparr> \<rparr> \<rparr>"
  by (simp add: breaker_defs)

theorem breaker_recovery_timeout_bypassed_witness:
  "invoked (CircuitBreaker_execute
        \<lparr> breakerName = ''listCases'', config = DEFAULT_CIRCUIT_CONFIG, state = OPEN,
          stats = \<lparr> requests = 10, failures = 10, lastFailureTime = 1700000008200,
                    windowStart = 1700000000000 \<rparr> \<rparr>
        1700000010001 1700000010001 (Inl ''boom'' :: string + unit) 1700000010101)"
  using breaker_recovery_timeout_bypassed by simp

text \<open>
  C10. When the circuit is \<open>OPEN\<close> and a call to \<open>execute\<close> comes more than
  \<open>monitoringPeriod\<close> after \<open>windowStart\<close>, at a clock value greater than
  \<open>recoveryTimeout\<close>, the window reset sets \<open>lastFailureTime\<close> to 0, the circuit becomes
  \<open>HALF_OPEN\<close> in that call and the operation is called, whatever \<open>lastFailureTime\<close> was.
  The call settles as the operation does, and it leaves the breaker as a call dispatched
  in state \<open>HALF_OPEN\<close> with fresh statistics does: \<open>CLOSED\<close> with the statistics reset
  after a success; after a failure one request and one failure counted, \<open>HALF_OPEN\<close>
  unless both thresholds are at most 1.
\<close>

theorem window_reset_forces_half_open:
  assumes "state cb = OPEN"
    and "now - windowStart (stats cb) > monitoringPeriod (config cb)"
    and "now > recoveryTimeout (config cb)"
  shows "lastFailureTime (stats (updateState now t cb)) = 0
       \<and> state (updateState now t cb) = HALF_OPEN
       \<and> invoked (CircuitBreaker_execute cb now t operation tEnd)
       \<and> settled (CircuitBreaker_execute cb now t operation tEnd)
           = (case operation of Inl e \<Rightarrow> Inl (OperationError e) | Inr v \<Rightarrow> Inr v)
       \<and> breaker (CircuitBreaker_execute cb now t operation tEnd)
           = (case operation of
                Inr v \<Rightarrow>
                  cb \<lparr> state := CLOSED,
                       stats := \<lparr> requests = 0, failures = 0, lastFailureTime = 0,
                                  windowStart = tEnd \<rparr> \<rparr>
              | Inl e \<Rightarrow>
                  cb \<lparr> state := (if failureThreshold (config cb) \<le> 1
                                      \<and> minimumRequests (config cb) \<le> 1
                                   then OPEN else HALF_OPEN),
                       stats := \<lparr> requests = 1, failures = 1, lastFailureTime = tEnd,
                                  windowStart = t \<rparr> \<rparr>)"
  using assms by (simp add: breaker_defs split: sum.splits)

theorem window_reset_forces_half_open_witness:
  "lastFailureTime (stats (updateState 1700000020000 1700000020000
      \<lparr> breakerName = ''getCase'', config = DEFAULT_CIRCUIT_CONFIG, state = OPEN,
        stats = \<lparr> requests = 12, failures = 7, lastFailureTime = 1700000019999,
                  windowStart = 1700000009999 \<rparr> \<rparr>)) = 0
   \<and> state (updateState 1700000020000 1700000020000
      \<lparr> breakerName = ''getCase'', config = DEFAULT_CIRCUIT_CONFIG, state = OPEN,
        stats = \<lparr> requests = 12, failures = 7, lastFailureTime = 1700000019999,
                  windowStart = 1700000009999 \<rparr> \<rparr>) = HALF_OPEN
   \<and> invoked (CircuitBreaker_execute
      \<lparr> breakerName = ''getCase'', config = DEFAULT_CIRCUIT_CONFIG, state = OPEN,
        stats = \<lparr> requests = 12, failures = 7, lastFailureTime = 1700000019999,
                  windowStart = 1700000009999 \<rparr> \<rparr> 1700000020000 1700000020000
      (Inl ''boom'' :: string + unit) 1700000020050)
   \<and> breaker (CircuitBreaker_execute
      \<lparr> breakerName = ''getCase'', config = DEFAULT_CIRCUIT_CONFIG, state = OPEN,
        stats = \<lparr> requests = 12, failures = 7, lastFailureTime = 1700000019999,
                  windowStart = 1700000009999 \<rparr> \<rparr> 1700000020000 1700000020000
      (Inl ''boom'' :: string + unit) 1700000020050)
     = \<lparr> breakerName = ''getCase'', config = DEFAULT_CIRCUIT_CONFIG, state = HALF_OPEN,
         stats = \<lparr> requests = 1, failures = 1, lastFailureTime = 1700000020050,
                   windowStart = 1700000020000 \<rparr> \<rparr>"
  using window_reset_forces_half_open
    [of "\<lparr> breakerName = ''getCase'', config = DEFAULT_CIRCUIT_CONFIG, state = OPEN,
           stats = \<lparr> requests = 12, failures = 7, lastFailureTime = 1700000019999,
                     windowStart = 1700000009999 \<rparr> \<rparr>" 1700000020000 1700000020000
        "Inl ''boom'' :: string + unit" 1700000020050]
  by (simp add: DEFAULT_CIRCUIT_CONFIG_def)

text \<open>
  The transitions of the breaker within one monitoring window. A failure that brings the
  counters to \<open>failures \<ge> failureThreshold\<close> and \<open>requests \<ge> minimumRequests\<close> opens the
  circuit. While the circuit is \<open>OPEN\<close>, \<open>recoveryTimeout\<close> has not elapsed since
  \<open>lastFailureTime\<close> and \<open>monitoringPeriod\<close> has not elapsed since \<open>windowStart\<close>, a call
  is rejected with the circuit-open error, the operation is not called and the breaker
  does not change. Once more than \<open>recoveryTimeout\<close> has elapsed since \<open>lastFailureTime\<close>,
  the next call makes the circuit \<open>HALF_OPEN\<close>. One success while \<open>HALF_OPEN\<close> closes the
  circuit, with \<open>requests\<close> and \<open>failures\<close> at zero.
\<close>

theorem breaker_transitions:
  "(state (updateState now t cb) \<noteq> OPEN
      \<and> failures (stats (updateState now t cb)) + 1 \<ge> failureThreshold (config cb)
      \<and> requests (stats (updateState now t cb)) + 1 \<ge> minimumRequests (config cb)
      \<longrightarrow> state (breaker (CircuitBreaker_execute cb now t (Inl e) tEnd)) = OPEN)
   \<and> (state cb = OPEN \<and> now - lastFailureTime (stats cb) \<le> recoveryTimeout (config cb)
        \<and> now - windowStart (stats cb) \<le> monitoringPeriod (config cb)
      \<longrightarrow> CircuitBreaker_execute cb now t operation tEnd
            = \<lparr> settled = Inl (CircuitOpen (''Circuit breaker is OPEN for: '' @ breakerName cb)),
                invoked = False, breaker = cb \<rparr>)
   \<and> (state cb = OPEN \<and> 0 \<le> lastFailureTime (stats cb)
        \<and> now - lastFailureTime (stats cb) > recoveryTimeout (config cb)
      \<longrightarrow> state (updateState now t cb) = HALF_OPEN)
   \<and> (state (updateState now t cb) = HALF_OPEN
      \<longrightarrow> state (breaker (CircuitBreaker_execute cb now t (Inr v) tEnd)) = CLOSED
          \<and> requests (stats (breaker (CircuitBreaker_execute cb now t (Inr v) tEnd))) = 0
          \<and> failures (stats (breaker (CircuitBreaker_execute cb now t (Inr v) tEnd))) = 0)"
  by (auto simp add: breaker_defs)

theorem breaker_transitions_witness:
  "CircuitBreaker_execute
        \<lparr> breakerName = ''listCases'', config = DEFAULT_CIRCUIT_CONFIG, state = OPEN,
          stats = \<lparr> requests = 10, failures = 10, lastFailureTime = 1700000008200,
                    windowStart = 1700000000000 \<rparr> \<rparr>
        1700000009000 1700000009000 (Inr ''ok'' :: string + string) 1700000009100
     = \<lparr> settled = Inl (CircuitOpen (''Circuit breaker is OPEN for: '' @ ''listCases'')),
         invoked = False,
         breaker = \<lparr> breakerName = ''listCases'', config = DEFAULT_CIRCUIT_CONFIG, state = OPEN,
                     stats = \<lparr> requests = 10, failures = 10, lastFailureTime = 1700000008200,
                               windowStart = 1700000000000 \<rparr> \<rparr> \<rparr>"
proof -
  let ?cb = "\<lparr> breakerName = ''listCases'', config = DEFAULT_CIRCUIT_CONFIG, state = OPEN,
               stats = \<lparr> requests = 10, failures = 10, lastFailureTime = 1700000008200,
                         windowStart = 1700000000000 \<rparr> \<rparr>"
  have h: "state ?cb = OPEN
      \<and> 1700000009000 - lastFailureTime (stats ?cb) \<le> recoveryTimeout (config ?cb)
      \<and> 1700000009000 - windowStart (stats ?cb) \<le> monitoringPeriod (config ?cb)"
    by (simp add: DEFAULT_CIRCUIT_CONFIG_def)
  note rejected = breaker_transitions
    [where cb = ?cb and now = 1700000009000 and t = 1700000009000
       and operation = "Inr ''ok'' :: string + string" and tEnd = 1700000009100,
     THEN conjunct2, THEN conjunct1, rule_format]
  from rejected [OF h] show ?thesis by simp
qed

section \<open>Graceful shutdown\<close>

lemma fold_executeHandlerWithTimeout:
  "fold executeHandlerWithTimeout xs m = m \<lparr> handlerCalls := handlerCalls m @ xs \<rparr>"
  by (induction xs arbitrary: m) (simp_all add: executeHandlerWithTimeout_def)

lemma shutdown_first:
  "\<not> isShuttingDown m \<Longrightarrow>
   shutdown reason m = m \<lparr> isShuttingDown := True,
                          handlerCalls := handlerCalls m @ [0 ..< length (shutdownHandlers m)] \<rparr>"
  by (simp add: shutdown_def fold_executeHandlerWithTimeout)

lemma shutdown_again: "isShuttingDown m \<Longrightarrow> shutdown reason m = m"
  by (simp add: shutdown_def)

lemma shutdown_sets_flag: "isShuttingDown (shutdown reason m)"
  by (cases "isShuttingDown m") (simp_all add: shutdown_first shutdown_again)

lemma shutdown_calls_only:
  "isShuttingDown m \<Longrightarrow> fold manager_step (map Shutdown rs) m = m"
  by (induction rs) (simp_all add: shutdown_again)

lemma calls_inv_step: "calls_inv m \<Longrightarrow> calls_inv (manager_step c m)"
proof (cases c)
  case (RegisterHandler nm h tmo)
  assume "calls_inv m"
  then show ?thesis using RegisterHandler
    by (auto simp: calls_inv_def registerHandler_def)
next
  case (SetShutdownTimeout t)
  assume "calls_inv m"
  then show ?thesis using SetShutdownTimeout
    by (simp add: calls_inv_def setShutdownTimeout_def)
next
  case (Shutdown reason)
  assume inv: "calls_inv m"
  show ?thesis
  proof (cases "isShuttingDown m")
    case True
    with inv Shutdown show ?thesis by (simp add: shutdown_again)
  next
    case False
    with inv Shutdown show ?thesis by (simp add: shutdown_first calls_inv_def)
  qed
qed

lemma calls_inv_run: "calls_inv m \<Longrightarrow> calls_inv (fold manager_step cs m)"
  by (induction cs arbitrary: m) (simp_all add: calls_inv_step)

lemma calls_inv_new: "calls_inv GracefulShutdownManager_new"
  by (simp add: calls_inv_def GracefulShutdownManager_new_def)

lemma distinct_count_list_le_1: "distinct xs \<Longrightarrow> count_list xs i \<le> 1"
  by (induction xs) (auto simp: count_list_0_iff)

text \<open>
  C9. A call of \<open>shutdown\<close> that finds \<open>isShuttingDown\<close> false calls the handler of every
  registered entry, once each and in the order of registration. A call that finds the
  flag set changes nothing and calls no handler, so a sequence of \<open>shutdown\<close> calls does
  what its first call does. After every sequence of calls on a new manager
  (registrations, timeout settings and shutdowns, in any order) no registered entry has
  had its handler called more than once.
\<close>

theorem shutdown_handlers_at_most_once:
  "(\<not> isShuttingDown m \<longrightarrow>
      handlerCalls (shutdown reason m) = handlerCalls m @ [0 ..< length (shutdownHandlers m)])
   \<and> (isShuttingDown m \<longrightarrow> shutdown reason m = m)
   \<and> manager_run (map Shutdown (reason # rs)) m = shutdown reason m
   \<and> distinct (handlerCalls (manager_run cs GracefulShutdownManager_new))
   \<and> (\<forall>i. count_list (handlerCalls (manager_run cs GracefulShutdownManager_new)) i \<le> 1)"
proof -
  have seq: "manager_run (map Shutdown (reason # rs)) m = shutdown reason m"
    by (simp add: manager_run_def shutdown_calls_only shutdown_sets_flag)
  have "calls_inv (manager_run cs (GracefulShutdownManager_new :: 'b GracefulShutdownManager))"
    unfolding manager_run_def by (rule calls_inv_run [OF calls_inv_new])
  then have d: "distinct (handlerCalls
      (manager_run cs (GracefulShutdownManager_new :: 'b GracefulShutdownManager)))"
    by (simp add: calls_inv_def)
  then have c: "\<forall>i. count_list (handlerCalls
      (manager_run cs (GracefulShutdownManager_new :: 'b GracefulShutdownManager))) i \<le> 1"
    by (blast intro: distinct_count_list_le_1)
  from seq d c show ?thesis
    by (simp add: shutdown_first shutdown_again)
qed

theorem shutdown_handlers_at_most_once_witness:
  "handlerCalls (manager_run (map Shutdown [Some SIGTERM, Some SIGINT, None])
      (registerHandler ''logs'' ''flushLogs'' (Some 3000)
        (registerHandler ''server'' ''closeServer'' None GracefulShutdownManager_new)))
   = [0, 1]"
proof -
  let ?m = "registerHandler ''logs'' ''flushLogs'' (Some 3000)
        (registerHandler ''server'' ''closeServer'' None GracefulShutdownManager_new)"
  have h: "\<not> isShuttingDown ?m"
    by (simp add: registerHandler_def GracefulShutdownManager_new_def)
  have l: "length (shutdownHandlers ?m) = 2" "handlerCalls ?m = []"
    by (simp_all add: registerHandler_def GracefulShutdownManager_new_def)
  have u: "[0 ..< 2] = [0, Suc 0]" by (simp add: upt_rec)
  note inst = shutdown_handlers_at_most_once
    [where m = ?m and reason = "Some SIGTERM" and rs = "[Some SIGINT, None]" and cs = "[]"]
  from inst h have first: "handlerCalls (shutdown (Some SIGTERM) ?m)
      = handlerCalls ?m @ [0 ..< length (shutdownHandlers ?m)]"
    by blast
  from inst have "manager_run (map Shutdown (Some SIGTERM # [Some SIGINT, None])) ?m
      = shutdown (Some SIGTERM) ?m"
    by blast
  then have "handlerCalls (manager_run (map Shutdown [Some SIGTERM, Some SIGINT, None]) ?m)
      = handlerCalls (shutdown (Some SIGTERM) ?m)"
    by (simp only:)
  also note first
  also have "handlerCalls ?m @ [0 ..< length (shutdownHandlers ?m)] = [0, 1]"
    by (simp only: l u append_Nil One_nat_def)
  finally show ?thesis .
qed

end
